theory Spec2Isabelle
  imports Main
begin

section \<open>Errors\<close>

text \<open>
  Go errors as values.  \<open>AwsError code message\<close> is an \<open>awserr.Error\<close> of the AWS SDK,
  \<open>TimeoutError\<close>, \<open>UnexpectedStateError\<close> and \<open>NotFoundError\<close> are the three error types of
  the plugin framework's \<open>resource\<close> package, \<open>Errorf\<close> is \<open>fmt.Errorf\<close> with its format
  string and arguments, and \<open>Panic\<close> is a Go run-time panic (a nil dereference), which ends
  the operation at once.
\<close>

datatype error =
    AwsError string string
  | TimeoutError string
  | UnexpectedStateError string
  | NotFoundError
  | Errorf string "fmt_arg list"
  | Panic string
and fmt_arg = ArgS string | ArgE error

text \<open>\<open>strings.Contains\<close>: the substring test of the Go standard library.\<close>

fun HasPrefix :: "string \<Rightarrow> string \<Rightarrow> bool" where
  "HasPrefix s [] = True"
| "HasPrefix [] (p # ps) = False"
| "HasPrefix (c # cs) (p # ps) = (c = p \<and> HasPrefix cs ps)"

fun Contains :: "string \<Rightarrow> string \<Rightarrow> bool" where
  "Contains [] sub = (sub = [])"
| "Contains (c # cs) sub = (HasPrefix (c # cs) sub \<or> Contains cs sub)"

text \<open>
  Modelled from the spec: \<open>tfawserr.ErrMessageContains\<close>, the error-class test of the
  imported helper library that is not under src/ (``each call may return a
  provider-specific error code that callers pattern-match''): the error is an AWS error
  with the given code whose message contains the given text.  A nil error never matches.
\<close>

fun ErrMessageContains :: "error option \<Rightarrow> string \<Rightarrow> string \<Rightarrow> bool" where
  "ErrMessageContains (Some (AwsError c m)) code message = (c = code \<and> Contains m message)"
| "ErrMessageContains err code message = False"

section \<open>The convergence poller\<close>

text \<open>
  The poller is \<open>resource.StateChangeConf.WaitForState\<close> of the plugin framework; src/ holds
  only its call sites.  Time is counted in seconds.
\<close>

datatype pending_states = AnyNonTarget | States "string list"

record StateChangeConf =
  Delay :: nat
  Pending :: pending_states
  Target :: "string list"
  Timeout :: nat
  MinTimeout :: nat
  PollInterval :: nat
  NotFoundChecks :: nat
  ContinuousTargetOccurence :: nat

datatype failure_kind = RefreshError | Timeout_kind | UnexpectedState | Cancelled

datatype 'v PollOutcome =
    Success 'v string
  | Failure failure_kind string "error option"

text \<open>
  A refresh function reads the remote state: it returns an error, or a value and a status
  token, and the world after the call.  \<open>None\<close> is a refresh that never returns (one of
  the refresh functions below pages through results in an unbounded loop).
\<close>

type_synonym ('v, 'w) StateRefreshFunc = "'w \<Rightarrow> ((error + 'v \<times> string) \<times> 'w) option"

definition is_pending :: "StateChangeConf \<Rightarrow> string \<Rightarrow> bool" where
  "is_pending conf tok =
     (case Pending conf of
        AnyNonTarget \<Rightarrow> tok \<notin> set (Target conf)
      | States ps \<Rightarrow> tok \<in> set ps)"

text \<open>
  Modelled from the spec: the number of consecutive target reads a poll needs.  The spec's
  PollSpec has \<open>continuousTargetOccurrences \<ge> 1\<close>; a call site that leaves the field
  unset (Go's zero value) asks for one.
\<close>

definition occurrences :: "StateChangeConf \<Rightarrow> nat" where
  "occurrences conf = max 1 (ContinuousTargetOccurence conf)"

text \<open>
  Modelled from the spec: the wait between two refreshes (``start at pollInterval, apply
  a bounded backoff up to a cap, clamp to at least minPollInterval'').  The spec leaves the
  growth open, so the backoff is a parameter: \<open>backoff k\<close> is the interval proposed
  before refresh \<open>k + 1\<close>.  A wait lasts at least one second.
\<close>

definition interval :: "StateChangeConf \<Rightarrow> (nat \<Rightarrow> nat) \<Rightarrow> nat \<Rightarrow> nat" where
  "interval conf backoff k =
     max 1 (max (MinTimeout conf) (if k = 0 then PollInterval conf else backoff k))"

text \<open>
  Modelled from the spec: the Convergence Poller of section 4.1, the framework's
  \<open>WaitForState\<close> loop that is not under src/.  \<open>poll conf backoff refresh t k cnt w\<close> is
  the loop at elapsed time \<open>t\<close>, about to make refresh number \<open>k\<close>, with \<open>cnt\<close> consecutive
  target reads so far.  It returns the outcome, the list of refresh observations it made
  (an error or a status token each) and the world after the last refresh.
  \<^item> the refresh fails: Failure(RefreshError), no retry;
  \<^item> a target state: the counter goes up; when it reaches the required number the poll
    succeeds, otherwise it polls again after an interval;
  \<^item> a pending state: the counter is reset, and it polls again after an interval;
  \<^item> any other state: Failure(UnexpectedState, token, nil), at once;
  \<^item> the elapsed time exceeds the timeout while the poll is still pending:
    Failure(Timeout, last token, nil).
  The first read is always made and classified.  No call site under src/ passes a context,
  so a poll is never cancelled.
\<close>

function poll ::
  "StateChangeConf \<Rightarrow> (nat \<Rightarrow> nat) \<Rightarrow> ('v, 'w) StateRefreshFunc \<Rightarrow> nat \<Rightarrow> nat \<Rightarrow> nat \<Rightarrow> 'w
     \<Rightarrow> ('v PollOutcome \<times> (error + string) list \<times> 'w) option" where
  "poll conf backoff refresh t k cnt w =
     (case refresh w of
        None \<Rightarrow> None
      | Some (Inl err, w') \<Rightarrow> Some (Failure RefreshError [] (Some err), [Inl err], w')
      | Some (Inr (v, tok), w') \<Rightarrow>
          if tok \<in> set (Target conf) then
            (if occurrences conf \<le> Suc cnt then Some (Success v tok, [Inr tok], w')
             else if Timeout conf < t + interval conf backoff k
             then Some (Failure Timeout_kind tok None, [Inr tok], w')
             else
               (case poll conf backoff refresh (t + interval conf backoff k) (Suc k) (Suc cnt) w' of
                  None \<Rightarrow> None
                | Some (out, obs, w'') \<Rightarrow> Some (out, Inr tok # obs, w'')))
          else if is_pending conf tok then
            (if Timeout conf < t + interval conf backoff k
             then Some (Failure Timeout_kind tok None, [Inr tok], w')
             else
               (case poll conf backoff refresh (t + interval conf backoff k) (Suc k) 0 w' of
                  None \<Rightarrow> None
                | Some (out, obs, w'') \<Rightarrow> Some (out, Inr tok # obs, w'')))
          else Some (Failure UnexpectedState tok None, [Inr tok], w'))"
  by pat_completeness auto
termination
  by (relation "measure (\<lambda>(conf, backoff, refresh, t, k, cnt, w). Suc (Timeout conf) - t)")
     (auto simp: interval_def)

text \<open>
  \<open>WaitForState\<close> as the call sites see it: the poll starts after the initial delay; the
  result is Go's pair of a value and an error.
\<close>

definition outcome_error :: "'v PollOutcome \<Rightarrow> error option" where
  "outcome_error out =
     (case out of
        Success v tok \<Rightarrow> None
      | Failure kind tok err \<Rightarrow>
          (case kind of
             RefreshError \<Rightarrow> err
           | Timeout_kind \<Rightarrow> Some (TimeoutError tok)
           | UnexpectedState \<Rightarrow> Some (UnexpectedStateError tok)
           | Cancelled \<Rightarrow> err))"

definition outcome_value :: "'v PollOutcome \<Rightarrow> 'v option" where
  "outcome_value out = (case out of Success v tok \<Rightarrow> Some v | Failure kind tok err \<Rightarrow> None)"

definition WaitForState_poll ::
  "StateChangeConf \<Rightarrow> (nat \<Rightarrow> nat) \<Rightarrow> ('v, 'w) StateRefreshFunc \<Rightarrow> 'w
     \<Rightarrow> ('v PollOutcome \<times> (error + string) list \<times> 'w) option" where
  "WaitForState_poll conf backoff refresh w = poll conf backoff refresh (Delay conf) 0 0 w"

definition WaitForState ::
  "StateChangeConf \<Rightarrow> (nat \<Rightarrow> nat) \<Rightarrow> ('v, 'w) StateRefreshFunc \<Rightarrow> 'w
     \<Rightarrow> (('v option \<times> error option) \<times> 'w) option" where
  "WaitForState conf backoff refresh w =
     (case WaitForState_poll conf backoff refresh w of
        None \<Rightarrow> None
      | Some (out, obs, w') \<Rightarrow> Some ((outcome_value out, outcome_error out), w'))"


definition pending_obs :: "StateChangeConf \<Rightarrow> error + string \<Rightarrow> bool" where
  "pending_obs conf ob =
     (case ob of Inl e \<Rightarrow> False | Inr tok \<Rightarrow> tok \<notin> set (Target conf) \<and> is_pending conf tok)"


text \<open>
  Modelled from the spec: \<open>resource.Retry\<close>, the framework's retry helper that is not
  under src/ (``a thin wrapper around a retry/poll helper''): the poller run on a function
  whose success is the target state, whose retryable error is the pending state and whose
  non-retryable error is a refresh error.  The result is Go's error value: nil, the
  function's non-retryable error, or the timeout error.
\<close>

datatype RetryError = RetryableError error | NonRetryableError error

definition retry_refresh :: "('w \<Rightarrow> RetryError option \<times> 'w) \<Rightarrow> (unit, 'w) StateRefreshFunc" where
  "retry_refresh f w =
     (case f w of
        (None, w') \<Rightarrow> Some (Inr ((), ''success''), w')
      | (Some (RetryableError e), w') \<Rightarrow> Some (Inr ((), ''retryableerror''), w')
      | (Some (NonRetryableError e), w') \<Rightarrow> Some (Inl e, w'))"

definition retry_conf :: "nat \<Rightarrow> StateChangeConf" where
  "retry_conf timeout =
     \<lparr>Delay = 0, Pending = States [''retryableerror''], Target = [''success''],
      Timeout = timeout, MinTimeout = 0, PollInterval = 0, NotFoundChecks = 0,
      ContinuousTargetOccurence = 0\<rparr>"

definition Retry ::
  "nat \<Rightarrow> (nat \<Rightarrow> nat) \<Rightarrow> ('w \<Rightarrow> RetryError option \<times> 'w) \<Rightarrow> 'w \<Rightarrow> (error option \<times> 'w) option" where
  "Retry timeout backoff f w =
     (case WaitForState (retry_conf timeout) backoff (retry_refresh f) w of
        None \<Rightarrow> None
      | Some ((v, err), w') \<Rightarrow> Some (err, w'))"

text \<open>
  Modelled from the spec: \<open>tfresource.TimedOut\<close> and \<open>tfresource.NotFound\<close>, the
  package's error tests that are not under src/: the error is the poller's timeout
  (error kind 3 of section 7), respectively the framework's not-found error.
\<close>

fun TimedOut :: "error option \<Rightarrow> bool" where
  "TimedOut (Some (TimeoutError tok)) = True"
| "TimedOut err = False"

fun NotFound :: "error option \<Rightarrow> bool" where
  "NotFound (Some NotFoundError) = True"
| "NotFound err = False"

section \<open>Resource data and the provider API\<close>

text \<open>
  \<open>schema.ResourceData\<close> of the plugin framework: the identifier (\<open>d.Id()\<close>), the
  attribute values of the operation (\<open>d.Get\<close>, \<open>d.Set\<close>), the values before the planned
  change (\<open>d.HasChange\<close>, \<open>d.GetChange\<close>) and the configured timeouts.
\<close>

datatype attr_value = VString string | VInt int | VBool bool | VMap "(string \<times> string) list"

record ResourceData =
  d_Id :: string
  attrs :: "string \<rightharpoonup> attr_value"
  prior :: "string \<rightharpoonup> attr_value"
  TimeoutCreate :: nat
  TimeoutDelete :: nat

text \<open>
  What the plugin framework decides and the source leaves open: the backoff of its
  poller, and whether \<open>d.Set\<close> rejects a value (\<open>SetError\<close>; a rejected value is not stored).
\<close>

record sdk =
  backoff :: "nat \<Rightarrow> nat"
  SetError :: "string \<Rightarrow> attr_value \<Rightarrow> error option"

definition d_Set :: "sdk \<Rightarrow> string \<Rightarrow> attr_value \<Rightarrow> ResourceData \<Rightarrow> error option \<times> ResourceData" where
  "d_Set fw k v d =
     (case SetError fw k v of
        Some e \<Rightarrow> (Some e, d)
      | None \<Rightarrow> (None, d\<lparr>attrs := (attrs d)(k \<mapsto> v)\<rparr>))"

definition SetId :: "string \<Rightarrow> ResourceData \<Rightarrow> ResourceData" where
  "SetId v d = d\<lparr>d_Id := v\<rparr>"

definition GetString :: "ResourceData \<Rightarrow> string \<Rightarrow> string" where
  "GetString d k = (case attrs d k of Some (VString s) \<Rightarrow> s | _ \<Rightarrow> '''')"

definition GetBool :: "ResourceData \<Rightarrow> string \<Rightarrow> bool" where
  "GetBool d k = (case attrs d k of Some (VBool b) \<Rightarrow> b | _ \<Rightarrow> False)"

definition GetTags :: "ResourceData \<Rightarrow> string \<Rightarrow> (string \<times> string) list" where
  "GetTags d k = (case attrs d k of Some (VMap m) \<Rightarrow> m | _ \<Rightarrow> [])"

text \<open>\<open>d.GetOk\<close>: the value, when it is set to something other than its type's zero.\<close>

definition GetOkString :: "ResourceData \<Rightarrow> string \<Rightarrow> string option" where
  "GetOkString d k =
     (case attrs d k of Some (VString s) \<Rightarrow> if s = '''' then None else Some s | _ \<Rightarrow> None)"

definition GetOkInt :: "ResourceData \<Rightarrow> string \<Rightarrow> int option" where
  "GetOkInt d k =
     (case attrs d k of Some (VInt i) \<Rightarrow> if i = 0 then None else Some i | _ \<Rightarrow> None)"

definition HasChange :: "ResourceData \<Rightarrow> string \<Rightarrow> bool" where
  "HasChange d k = (prior d k \<noteq> attrs d k)"

definition GetChange :: "ResourceData \<Rightarrow> string \<Rightarrow> attr_value option \<times> attr_value option" where
  "GetChange d k = (prior d k, attrs d k)"

text \<open>\<open>aws.StringValue\<close>: a nil string pointer reads as the empty string.\<close>

definition StringValue :: "string option \<Rightarrow> string" where
  "StringValue p = (case p of None \<Rightarrow> '''' | Some s \<Rightarrow> s)"

text \<open>
  The calls an operation makes to the cloud provider API are logged in order.  The
  operations that src/ calls on the client have a name of their own; \<open>OpOther name
  mutating\<close> is a call made inside a helper that src/ does not hold.
\<close>

datatype api_op =
    OpAssociateVpcCidrBlock
  | OpDescribeVpcs
  | OpDisassociateVpcCidrBlock
  | OpCreateTransitGatewayConnect
  | OpDeleteTransitGatewayConnect
  | OpDescribeTransitGatewayConnectPeers
  | OpUpdateElasticsearchDomainConfig
  | OpDescribeElasticsearchDomain
  | OpOther string bool

fun mutating :: "api_op \<Rightarrow> bool" where
  "mutating OpAssociateVpcCidrBlock = True"
| "mutating OpDescribeVpcs = False"
| "mutating OpDisassociateVpcCidrBlock = True"
| "mutating OpCreateTransitGatewayConnect = True"
| "mutating OpDeleteTransitGatewayConnect = True"
| "mutating OpDescribeTransitGatewayConnectPeers = False"
| "mutating OpUpdateElasticsearchDomainConfig = True"
| "mutating OpDescribeElasticsearchDomain = False"
| "mutating (OpOther name m) = m"

text \<open>
  The world is the log of calls made so far.  The remote side answers a call as a
  function of the number of calls made before it and of the request, so that the same
  request can be answered differently as time goes by.
\<close>

type_synonym world = "api_op list"

definition invoke :: "api_op \<Rightarrow> (nat \<Rightarrow> 'r) \<Rightarrow> world \<Rightarrow> 'r \<times> world" where
  "invoke op f w = (f (length w), w @ [op])"

text \<open>
  A helper of the repository that src/ does not hold is a parameter: it returns its result
  and the calls it made.
\<close>

definition invoke_helper :: "(nat \<Rightarrow> 'r \<times> api_op list) \<Rightarrow> world \<Rightarrow> 'r \<times> world" where
  "invoke_helper h w = (fst (h (length w)), w @ snd (h (length w)))"

definition mutations :: "world \<Rightarrow> api_op list" where
  "mutations w = filter mutating w"

section \<open>EC2: types, client and helpers\<close>

text \<open>
  Status tokens (constants of the AWS SDK, and the package's own \<open>deleted\<close> token of the
  VPC CIDR block association).
\<close>

definition VpcCidrBlockStateCodeAssociating :: string where
  "VpcCidrBlockStateCodeAssociating = ''associating''"

definition VpcCidrBlockStateCodeAssociated :: string where
  "VpcCidrBlockStateCodeAssociated = ''associated''"

definition VpcCidrBlockStateCodeDisassociating :: string where
  "VpcCidrBlockStateCodeDisassociating = ''disassociating''"

definition VpcCidrBlockStateCodeDisassociated :: string where
  "VpcCidrBlockStateCodeDisassociated = ''disassociated''"

definition VpcCidrBlockStateCodeDeleted :: string where
  "VpcCidrBlockStateCodeDeleted = ''deleted''"

definition TransitGatewayAttachmentStateDeleting :: string where
  "TransitGatewayAttachmentStateDeleting = ''deleting''"

definition TransitGatewayAttachmentStateDeleted :: string where
  "TransitGatewayAttachmentStateDeleted = ''deleted''"

definition TransitGatewayConnectPeerStatePending :: string where
  "TransitGatewayConnectPeerStatePending = ''pending''"

definition TransitGatewayConnectPeerStateAvailable :: string where
  "TransitGatewayConnectPeerStateAvailable = ''available''"

definition TransitGatewayConnectPeerStateDeleting :: string where
  "TransitGatewayConnectPeerStateDeleting = ''deleting''"

definition TransitGatewayConnectPeerStateDeleted :: string where
  "TransitGatewayConnectPeerStateDeleted = ''deleted''"

text \<open>
  Response structures.  A string pointer is a \<open>string option\<close>.  A pointer the source
  tests against nil, or dereferences with \<open>*\<close>, is an option; a structure the source reads
  through without a test (\<open>resp.CidrBlockAssociation\<close>, \<open>cidrAssociation.CidrBlockState\<close>,
  \<open>output.TransitGatewayConnect\<close>, the result of \<open>DescribeTransitGateway\<close>) is taken as
  present.
\<close>

record VpcCidrBlockAssociation =
  AssociationId :: "string option"
  CidrBlock :: "string option"
  CidrBlockState :: "string option"

record Vpc =
  VpcId :: "string option"
  CidrBlockAssociationSet :: "VpcCidrBlockAssociation list"

record AssociateVpcCidrBlockInput =
  req_VpcId :: string
  req_CidrBlock :: "string option"
  req_Ipv4IpamPoolId :: "string option"
  req_Ipv4NetmaskLength :: "int option"

record TransitGatewayConnect =
  TransitGatewayAttachmentId :: "string option"
  connect_State :: "string option"
  TransitGatewayId :: "string option"
  TransportTransitGatewayAttachmentId :: "string option"
  connect_Tags :: "(string \<times> string) list"

record CreateTransitGatewayConnectInput =
  req_Protocol :: string
  req_TransportTransitGatewayAttachmentId :: string
  req_TagSpecifications :: "(string \<times> string) list"

record TransitGatewayAttachment =
  attachment_TransitGatewayId :: "string option"
  ResourceOwnerId :: "string option"

record TransitGatewayOptions =
  AssociationDefaultRouteTableId :: "string option"
  PropagationDefaultRouteTableId :: "string option"

record TransitGateway =
  OwnerId :: "string option"
  Options :: "TransitGatewayOptions option"

record TransitGatewayConnectPeer =
  TransitGatewayConnectPeerId :: "string option"
  peer_State :: "string option"

record DescribeTransitGatewayConnectPeersInput =
  TransitGatewayConnectPeerIds :: "string list"
  req_NextToken :: "string option"

record DescribeTransitGatewayConnectPeersOutput =
  TransitGatewayConnectPeers :: "TransitGatewayConnectPeer option list"
  NextToken :: "string option"

text \<open>
  The EC2 client \<open>conn\<close>: each operation answers as a function of the number of calls made
  before it and of the request.  \<open>DescribeVpcs\<close> takes its filters; its output may be nil,
  and so may the entries of \<open>output.Vpcs\<close>.
\<close>

record EC2 =
  AssociateVpcCidrBlock :: "nat \<Rightarrow> AssociateVpcCidrBlockInput \<Rightarrow> error + VpcCidrBlockAssociation"
  DescribeVpcs :: "nat \<Rightarrow> (string \<times> string) list \<Rightarrow> error + Vpc option list option"
  DisassociateVpcCidrBlock :: "nat \<Rightarrow> string \<Rightarrow> error option"
  CreateTransitGatewayConnect :: "nat \<Rightarrow> CreateTransitGatewayConnectInput \<Rightarrow> error + TransitGatewayConnect"
  DeleteTransitGatewayConnect :: "nat \<Rightarrow> string \<Rightarrow> error option"
  DescribeTransitGatewayConnectPeers ::
    "nat \<Rightarrow> DescribeTransitGatewayConnectPeersInput \<Rightarrow> error + DescribeTransitGatewayConnectPeersOutput option"

text \<open>
  \<open>meta\<close>: the client and the tag configuration (the tagging logic is not under src/, its
  three operations are parameters).
\<close>

record AWSClient =
  EC2Conn :: EC2
  MergeTags :: "(string \<times> string) list \<Rightarrow> (string \<times> string) list"
  IgnoreTags :: "(string \<times> string) list \<Rightarrow> (string \<times> string) list"
  RemoveDefaultConfig :: "(string \<times> string) list \<Rightarrow> (string \<times> string) list"

text \<open>
  The helpers of package \<open>ec2\<close> that the source calls and src/ does not hold.  Each takes
  the client and its arguments, then the number of calls made so far; it returns its
  result and the calls it made.  The two route table lookups return whether they found
  something (the source only tests their result against nil).
\<close>

record ec2_helpers =
  vpcDescribe :: "EC2 \<Rightarrow> string \<Rightarrow> nat \<Rightarrow> (error + Vpc option) \<times> api_op list"
  waitForTransitGatewayAttachmentCreation :: "EC2 \<Rightarrow> string \<Rightarrow> nat \<Rightarrow> error option \<times> api_op list"
  WaitForTransitGatewayAttachmentDeletion :: "EC2 \<Rightarrow> string \<Rightarrow> nat \<Rightarrow> error option \<times> api_op list"
  DescribeTransitGatewayConnect ::
    "EC2 \<Rightarrow> string \<Rightarrow> nat \<Rightarrow> (error + TransitGatewayConnect option) \<times> api_op list"
  DescribeTransitGatewayAttachment ::
    "EC2 \<Rightarrow> string \<Rightarrow> nat \<Rightarrow> (error + TransitGatewayAttachment option) \<times> api_op list"
  DescribeTransitGateway :: "EC2 \<Rightarrow> string \<Rightarrow> nat \<Rightarrow> (error + TransitGateway) \<times> api_op list"
  transitGatewayRouteTableAssociationUpdate ::
    "EC2 \<Rightarrow> string \<Rightarrow> string \<Rightarrow> bool \<Rightarrow> nat \<Rightarrow> error option \<times> api_op list"
  transitGatewayRouteTablePropagationUpdate ::
    "EC2 \<Rightarrow> string \<Rightarrow> string \<Rightarrow> bool \<Rightarrow> nat \<Rightarrow> error option \<times> api_op list"
  DescribeTransitGatewayRouteTableAssociation ::
    "EC2 \<Rightarrow> string \<Rightarrow> string \<Rightarrow> nat \<Rightarrow> (error + bool) \<times> api_op list"
  FindTransitGatewayRouteTablePropagation ::
    "EC2 \<Rightarrow> string \<Rightarrow> string \<Rightarrow> nat \<Rightarrow> (error + bool) \<times> api_op list"
  UpdateTags ::
    "EC2 \<Rightarrow> string \<Rightarrow> attr_value option \<Rightarrow> attr_value option \<Rightarrow> nat \<Rightarrow> error option \<times> api_op list"

section \<open>EC2: VPC IPv4 CIDR block association\<close>

definition vpcIpv4CidrBlockAssociationStateRefresh ::
  "ec2_helpers \<Rightarrow> EC2 \<Rightarrow> string \<Rightarrow> string \<Rightarrow> (VpcCidrBlockAssociation option, world) StateRefreshFunc" where
  "vpcIpv4CidrBlockAssociationStateRefresh hs conn vpcId assocId w =
     (case invoke_helper (vpcDescribe hs conn vpcId) w of
        (Inl err, w') \<Rightarrow> Some (Inl err, w')
      | (Inr vpc, w') \<Rightarrow>
          (case vpc of
             None \<Rightarrow> Some (Inr (None, VpcCidrBlockStateCodeDeleted), w')
           | Some v \<Rightarrow>
               (case find (\<lambda>cidrAssociation. StringValue (AssociationId cidrAssociation) = assocId)
                       (CidrBlockAssociationSet v) of
                  Some cidrAssociation \<Rightarrow>
                    Some (Inr (Some cidrAssociation, StringValue (CidrBlockState cidrAssociation)), w')
                | None \<Rightarrow> Some (Inr (None, VpcCidrBlockStateCodeDeleted), w'))))"

definition resourceVPCIPv4CIDRBlockAssociationRead ::
  "sdk \<Rightarrow> ResourceData \<Rightarrow> AWSClient \<Rightarrow> world \<Rightarrow> error option \<times> ResourceData \<times> world" where
  "resourceVPCIPv4CIDRBlockAssociationRead fw d meta w =
     (case invoke OpDescribeVpcs
             (\<lambda>c. DescribeVpcs (EC2Conn meta) c [(''cidr-block-association.association-id'', d_Id d)]) w of
        (Inl err, w1) \<Rightarrow> (Some (Errorf ''error describing VPCs: %s'' [ArgE err]), d, w1)
      | (Inr output, w1) \<Rightarrow>
          (case output of
             None \<Rightarrow> (None, SetId '''' d, w1)
           | Some [] \<Rightarrow> (None, SetId '''' d, w1)
           | Some (None # vpcs) \<Rightarrow> (None, SetId '''' d, w1)
           | Some (Some vpc # vpcs) \<Rightarrow>
               (case find (\<lambda>cidrBlockAssociation. StringValue (AssociationId cidrBlockAssociation) = d_Id d)
                       (CidrBlockAssociationSet vpc) of
                  None \<Rightarrow> (None, SetId '''' d, w1)
                | Some vpcCidrBlockAssociation \<Rightarrow>
                    (None,
                     snd (d_Set fw ''vpc_id'' (VString (StringValue (VpcId vpc)))
                       (snd (d_Set fw ''cidr_block''
                          (VString (StringValue (CidrBlock vpcCidrBlockAssociation))) d))),
                     w1))))"

definition resourceVPCIPv4CIDRBlockAssociationCreate ::
  "sdk \<Rightarrow> ec2_helpers \<Rightarrow> ResourceData \<Rightarrow> AWSClient \<Rightarrow> world
     \<Rightarrow> (error option \<times> ResourceData \<times> world) option" where
  "resourceVPCIPv4CIDRBlockAssociationCreate fw hs d meta w =
     (let conn = EC2Conn meta;
          req = \<lparr>req_VpcId = GetString d ''vpc_id'',
                 req_CidrBlock = GetOkString d ''cidr_block'',
                 req_Ipv4IpamPoolId = GetOkString d ''ipv4_ipam_pool_id'',
                 req_Ipv4NetmaskLength = GetOkInt d ''ipv4_netmask_length''\<rparr>
      in case invoke OpAssociateVpcCidrBlock (\<lambda>c. AssociateVpcCidrBlock conn c req) w of
           (Inl err, w1) \<Rightarrow>
             Some (Some (Errorf ''Error creating VPC IPv4 CIDR block association: %s'' [ArgE err]), d, w1)
         | (Inr resp, w1) \<Rightarrow>
             (let d1 = SetId (StringValue (AssociationId resp)) d;
                  stateConf =
                    \<lparr>Delay = 10,
                     Pending = States [VpcCidrBlockStateCodeAssociating],
                     Target = [VpcCidrBlockStateCodeAssociated],
                     Timeout = TimeoutCreate d1,
                     MinTimeout = 5,
                     PollInterval = 0, NotFoundChecks = 0, ContinuousTargetOccurence = 0\<rparr>
              in case WaitForState stateConf (backoff fw)
                        (vpcIpv4CidrBlockAssociationStateRefresh hs conn (GetString d1 ''vpc_id'') (d_Id d1)) w1 of
                   None \<Rightarrow> None
                 | Some ((v, Some err), w2) \<Rightarrow>
                     Some (Some (Errorf ''Error waiting for IPv4 CIDR block association (%s) to become available: %s''
                                   [ArgS (d_Id d1), ArgE err]), d1, w2)
                 | Some ((v, None), w2) \<Rightarrow> Some (resourceVPCIPv4CIDRBlockAssociationRead fw d1 meta w2)))"

definition resourceVPCIPv4CIDRBlockAssociationDelete ::
  "sdk \<Rightarrow> ec2_helpers \<Rightarrow> ResourceData \<Rightarrow> AWSClient \<Rightarrow> world
     \<Rightarrow> (error option \<times> ResourceData \<times> world) option" where
  "resourceVPCIPv4CIDRBlockAssociationDelete fw hs d meta w =
     (let conn = EC2Conn meta
      in case invoke OpDisassociateVpcCidrBlock (\<lambda>c. DisassociateVpcCidrBlock conn c (d_Id d)) w of
           (Some err, w1) \<Rightarrow>
             if ErrMessageContains (Some err) ''InvalidVpcID.NotFound'' '''' then Some (None, d, w1)
             else Some (Some (Errorf ''Error deleting VPC IPv4 CIDR block association: %s'' [ArgE err]), d, w1)
         | (None, w1) \<Rightarrow>
             (let stateConf =
                    \<lparr>Delay = 10,
                     Pending = States [VpcCidrBlockStateCodeDisassociating],
                     Target = [VpcCidrBlockStateCodeDisassociated, VpcCidrBlockStateCodeDeleted],
                     Timeout = TimeoutDelete d,
                     MinTimeout = 5,
                     PollInterval = 0, NotFoundChecks = 0, ContinuousTargetOccurence = 0\<rparr>
              in case WaitForState stateConf (backoff fw)
                        (vpcIpv4CidrBlockAssociationStateRefresh hs conn (GetString d ''vpc_id'') (d_Id d)) w1 of
                   None \<Rightarrow> None
                 | Some ((v, Some err), w2) \<Rightarrow>
                     Some (Some (Errorf ''Error waiting for VPC IPv4 CIDR block association (%s) to be deleted: %s''
                                   [ArgS (d_Id d), ArgE err]), d, w2)
                 | Some ((v, None), w2) \<Rightarrow> Some (None, d, w2)))"

section \<open>EC2: transit gateway connect attachment\<close>

text \<open>
  The end of \<open>resourceTransitGatewayConnectRead\<close> (from \<open>tags := ...\<close> on): the tags and the
  four attributes are written.  \<open>association\<close> and \<open>propagation\<close> tell whether the two route
  table structures are non-nil.
\<close>

definition resourceTransitGatewayConnectRead_set ::
  "sdk \<Rightarrow> AWSClient \<Rightarrow> TransitGatewayConnect \<Rightarrow> bool \<Rightarrow> bool \<Rightarrow> ResourceData \<Rightarrow> world
     \<Rightarrow> error option \<times> ResourceData \<times> world" where
  "resourceTransitGatewayConnectRead_set fw meta transitGatewayConnect association propagation d w =
     (let tags = IgnoreTags meta (connect_Tags transitGatewayConnect)
      in case d_Set fw ''tags'' (VMap (RemoveDefaultConfig meta tags)) d of
           (Some err, d1) \<Rightarrow> (Some (Errorf ''error setting tags: %w'' [ArgE err]), d1, w)
         | (None, d1) \<Rightarrow>
             (case d_Set fw ''tags_all'' (VMap tags) d1 of
                (Some err, d2) \<Rightarrow> (Some (Errorf ''error setting tags_all: %w'' [ArgE err]), d2, w)
              | (None, d2) \<Rightarrow>
                  (None,
                   snd (d_Set fw ''transport_attachment_id''
                          (VString (StringValue (TransportTransitGatewayAttachmentId transitGatewayConnect)))
                     (snd (d_Set fw ''transit_gateway_id''
                             (VString (StringValue (TransitGatewayId transitGatewayConnect)))
                        (snd (d_Set fw ''transit_gateway_default_route_table_propagation'' (VBool propagation)
                           (snd (d_Set fw ''transit_gateway_default_route_table_association''
                                   (VBool association) d2))))))),
                   w)))"

definition resourceTransitGatewayConnectRead ::
  "sdk \<Rightarrow> ec2_helpers \<Rightarrow> ResourceData \<Rightarrow> AWSClient \<Rightarrow> world \<Rightarrow> error option \<times> ResourceData \<times> world" where
  "resourceTransitGatewayConnectRead fw hs d meta w =
     (let conn = EC2Conn meta
      in case invoke_helper (DescribeTransitGatewayConnect hs conn (d_Id d)) w of
           (res, w1) \<Rightarrow>
             if ErrMessageContains (case res of Inl err \<Rightarrow> Some err | Inr c \<Rightarrow> None)
                  ''InvalidTransitGatewayAttachmentID.NotFound'' ''''
             then (None, SetId '''' d, w1)
             else
               (case res of
                  Inl err \<Rightarrow>
                    (Some (Errorf ''error reading EC2 Transit Gateway Connect Attachment: %s'' [ArgE err]), d, w1)
                | Inr None \<Rightarrow> (None, SetId '''' d, w1)
                | Inr (Some transitGatewayConnect) \<Rightarrow>
                    if StringValue (connect_State transitGatewayConnect) = TransitGatewayAttachmentStateDeleting
                       \<or> StringValue (connect_State transitGatewayConnect) = TransitGatewayAttachmentStateDeleted
                    then (None, SetId '''' d, w1)
                    else
                      (case TransitGatewayId transitGatewayConnect of
                         None \<Rightarrow> (Some (Panic ''nil pointer dereference''), d, w1)
                       | Some transitGatewayID \<Rightarrow>
                           (case invoke_helper (DescribeTransitGateway hs conn transitGatewayID) w1 of
                              (Inl err, w2) \<Rightarrow>
                                (Some (Errorf ''error describing EC2 Transit Gateway (%s): %s''
                                         [ArgS transitGatewayID, ArgE err]), d, w2)
                            | (Inr transitGateway, w2) \<Rightarrow>
                                (case invoke_helper (DescribeTransitGatewayAttachment hs conn (d_Id d)) w2 of
                                   (Inl err, w3) \<Rightarrow>
                                     (Some (Errorf ''error reading EC2 Transit Gateway Attachment: %s'' [ArgE err]),
                                      d, w3)
                                 | (Inr None, w3) \<Rightarrow> (None, SetId '''' d, w3)
                                 | (Inr (Some transitGatewayAttachment), w3) \<Rightarrow>
                                     if StringValue (OwnerId transitGateway)
                                          = StringValue (ResourceOwnerId transitGatewayAttachment)
                                     then
                                       (case Options transitGateway of
                                          None \<Rightarrow> (Some (Panic ''nil pointer dereference''), d, w3)
                                        | Some options \<Rightarrow>
                                            (case invoke_helper
                                                    (DescribeTransitGatewayRouteTableAssociation hs conn
                                                       (StringValue (AssociationDefaultRouteTableId options)) (d_Id d)) w3 of
                                               (Inl err, w4) \<Rightarrow>
                                                 (Some (Errorf ''error determining EC2 Transit Gateway Attachment (%s) association to Route Table (%s): %s''
                                                          [ArgS (d_Id d), ArgS (StringValue (AssociationDefaultRouteTableId options)), ArgE err]),
                                                  d, w4)
                                             | (Inr association, w4) \<Rightarrow>
                                                 (case invoke_helper
                                                         (FindTransitGatewayRouteTablePropagation hs conn
                                                            (StringValue (PropagationDefaultRouteTableId options)) (d_Id d)) w4 of
                                                    (Inl err, w5) \<Rightarrow>
                                                      (Some (Errorf ''error determining EC2 Transit Gateway Attachment (%s) propagation to Route Table (%s): %s''
                                                               [ArgS (d_Id d), ArgS (StringValue (PropagationDefaultRouteTableId options)), ArgE err]),
                                                       d, w5)
                                                  | (Inr propagation, w5) \<Rightarrow>
                                                      resourceTransitGatewayConnectRead_set fw meta transitGatewayConnect
                                                        association propagation d w5)))
                                     else resourceTransitGatewayConnectRead_set fw meta transitGatewayConnect
                                            True True d w3)))))"

definition resourceTransitGatewayConnectCreate ::
  "sdk \<Rightarrow> ec2_helpers \<Rightarrow> ResourceData \<Rightarrow> AWSClient \<Rightarrow> world \<Rightarrow> error option \<times> ResourceData \<times> world" where
  "resourceTransitGatewayConnectCreate fw hs d meta w =
     (let conn = EC2Conn meta;
          tags = MergeTags meta (GetTags d ''tags'');
          transportAttachmentID = GetString d ''transport_attachment_id'';
          input = \<lparr>req_Protocol = ''gre'',
                   req_TransportTransitGatewayAttachmentId = transportAttachmentID,
                   req_TagSpecifications = tags\<rparr>
      in case invoke OpCreateTransitGatewayConnect (\<lambda>c. CreateTransitGatewayConnect conn c input) w of
           (Inl err, w1) \<Rightarrow>
             (Some (Errorf ''error creating EC2 Transit Gateway Connect Attachment: %s'' [ArgE err]), d, w1)
         | (Inr output, w1) \<Rightarrow>
             (let d1 = SetId (StringValue (TransitGatewayAttachmentId output)) d
              in case invoke_helper (waitForTransitGatewayAttachmentCreation hs conn (d_Id d1)) w1 of
                   (Some err, w2) \<Rightarrow>
                     (Some (Errorf ''error waiting for EC2 Transit Gateway Connect Attachment (%s) availability: %s''
                              [ArgS (d_Id d1), ArgE err]), d1, w2)
                 | (None, w2) \<Rightarrow>
                     (case invoke_helper (DescribeTransitGatewayAttachment hs conn transportAttachmentID) w2 of
                        (Inl err, w3) \<Rightarrow>
                          (Some (Errorf ''error describing EC2 Transit Gateway Attachment (%s): %s''
                                   [ArgS transportAttachmentID, ArgE err]), d1, w3)
                      | (Inr None, w3) \<Rightarrow> (Some (Panic ''nil pointer dereference''), d1, w3)
                      | (Inr (Some transportAttachment), w3) \<Rightarrow>
                          (case attachment_TransitGatewayId transportAttachment of
                             None \<Rightarrow> (Some (Panic ''nil pointer dereference''), d1, w3)
                           | Some transitGatewayId \<Rightarrow>
                               (case invoke_helper (DescribeTransitGateway hs conn transitGatewayId) w3 of
                                  (Inl err, w4) \<Rightarrow>
                                    (Some (Errorf ''error describing EC2 Transit Gateway (%s): %s''
                                             [ArgS transitGatewayId, ArgE err]), d1, w4)
                                | (Inr transitGateway, w4) \<Rightarrow>
                                    (case Options transitGateway of
                                       None \<Rightarrow>
                                         (Some (Errorf ''error describing EC2 Transit Gateway (%s): missing options''
                                                  [ArgS transitGatewayId]), d1, w4)
                                     | Some options \<Rightarrow>
                                         if StringValue (OwnerId transitGateway)
                                              = StringValue (ResourceOwnerId transportAttachment)
                                         then
                                           (case invoke_helper
                                                   (transitGatewayRouteTableAssociationUpdate hs conn
                                                      (StringValue (AssociationDefaultRouteTableId options)) (d_Id d1)
                                                      (GetBool d1 ''transit_gateway_default_route_table_association'')) w4 of
                                              (Some err, w5) \<Rightarrow>
                                                (Some (Errorf ''error updating EC2 Transit Gateway Attachment (%s) Route Table (%s) association: %s''
                                                         [ArgS (d_Id d1), ArgS (StringValue (AssociationDefaultRouteTableId options)), ArgE err]),
                                                 d1, w5)
                                            | (None, w5) \<Rightarrow>
                                                (case invoke_helper
                                                        (transitGatewayRouteTablePropagationUpdate hs conn
                                                           (StringValue (PropagationDefaultRouteTableId options)) (d_Id d1)
                                                           (GetBool d1 ''transit_gateway_default_route_table_propagation'')) w5 of
                                                   (Some err, w6) \<Rightarrow>
                                                     (Some (Errorf ''error updating EC2 Transit Gateway Attachment (%s) Route Table (%s) propagation: %s''
                                                              [ArgS (d_Id d1), ArgS (StringValue (PropagationDefaultRouteTableId options)), ArgE err]),
                                                      d1, w6)
                                                 | (None, w6) \<Rightarrow> resourceTransitGatewayConnectRead fw hs d1 meta w6))
                                         else resourceTransitGatewayConnectRead fw hs d1 meta w4))))))"

definition resourceTransitGatewayConnectUpdate ::
  "sdk \<Rightarrow> ec2_helpers \<Rightarrow> ResourceData \<Rightarrow> AWSClient \<Rightarrow> world \<Rightarrow> error option \<times> ResourceData \<times> world" where
  "resourceTransitGatewayConnectUpdate fw hs d meta w =
     (let conn = EC2Conn meta;
          update_tags = (\<lambda>w'.
            if HasChange d ''tags_all'' then
              (case invoke_helper
                      (UpdateTags hs conn (d_Id d) (fst (GetChange d ''tags_all'')) (snd (GetChange d ''tags_all''))) w' of
                 (Some err, w'') \<Rightarrow>
                   (Some (Errorf ''error updating EC2 Transit Gateway Connect Attachment (%s) tags: %s''
                            [ArgS (d_Id d), ArgE err]), d, w'')
               | (None, w'') \<Rightarrow> (None, d, w''))
            else (None, d, w'))
      in if HasChange d ''transit_gateway_default_route_table_association''
            \<or> HasChange d ''transit_gateway_default_route_table_propagation''
         then
           (let transitGatewayID = GetString d ''transit_gateway_id''
            in case invoke_helper (DescribeTransitGateway hs conn transitGatewayID) w of
                 (Inl err, w1) \<Rightarrow>
                   (Some (Errorf ''error describing EC2 Transit Gateway (%s): %s'' [ArgS transitGatewayID, ArgE err]),
                    d, w1)
               | (Inr transitGateway, w1) \<Rightarrow>
                   (case Options transitGateway of
                      None \<Rightarrow>
                        (Some (Errorf ''error describing EC2 Transit Gateway (%s): missing options''
                                 [ArgS transitGatewayID]), d, w1)
                    | Some options \<Rightarrow>
                        (let update_propagation = (\<lambda>w'.
                               if HasChange d ''transit_gateway_default_route_table_propagation'' then
                                 (case invoke_helper
                                         (transitGatewayRouteTablePropagationUpdate hs conn
                                            (StringValue (PropagationDefaultRouteTableId options)) (d_Id d)
                                            (GetBool d ''transit_gateway_default_route_table_propagation'')) w' of
                                    (Some err, w'') \<Rightarrow>
                                      (Some (Errorf ''error updating EC2 Transit Gateway Attachment (%s) Route Table (%s) propagation: %s''
                                               [ArgS (d_Id d), ArgS (StringValue (PropagationDefaultRouteTableId options)), ArgE err]),
                                       d, w'')
                                  | (None, w'') \<Rightarrow> update_tags w'')
                               else update_tags w')
                         in if HasChange d ''transit_gateway_default_route_table_association'' then
                              (case invoke_helper
                                      (transitGatewayRouteTableAssociationUpdate hs conn
                                         (StringValue (AssociationDefaultRouteTableId options)) (d_Id d)
                                         (GetBool d ''transit_gateway_default_route_table_association'')) w1 of
                                 (Some err, w2) \<Rightarrow>
                                   (Some (Errorf ''error updating EC2 Transit Gateway Attachment (%s) Route Table (%s) association: %s''
                                            [ArgS (d_Id d), ArgS (StringValue (AssociationDefaultRouteTableId options)), ArgE err]),
                                    d, w2)
                               | (None, w2) \<Rightarrow> update_propagation w2)
                            else update_propagation w1)))
         else update_tags w)"

definition resourceTransitGatewayConnectDelete ::
  "ec2_helpers \<Rightarrow> ResourceData \<Rightarrow> AWSClient \<Rightarrow> world \<Rightarrow> error option \<times> ResourceData \<times> world" where
  "resourceTransitGatewayConnectDelete hs d meta w =
     (let conn = EC2Conn meta
      in case invoke OpDeleteTransitGatewayConnect (\<lambda>c. DeleteTransitGatewayConnect conn c (d_Id d)) w of
           (err, w1) \<Rightarrow>
             if ErrMessageContains err ''InvalidTransitGatewayAttachmentID.NotFound'' '''' then (None, d, w1)
             else
               (case err of
                  Some e \<Rightarrow>
                    (Some (Errorf ''error deleting EC2 Transit Gateway Connect Attachment: %s'' [ArgE e]), d, w1)
                | None \<Rightarrow>
                    (case invoke_helper (WaitForTransitGatewayAttachmentDeletion hs conn (d_Id d)) w1 of
                       (Some e, w2) \<Rightarrow>
                         (Some (Errorf ''error waiting for EC2 Transit Gateway Connect Attachment (%s) deletion: %s''
                                  [ArgS (d_Id d), ArgE e]), d, w2)
                     | (None, w2) \<Rightarrow> (None, d, w2))))"

section \<open>EC2: transit gateway connect peer\<close>

text \<open>
  \<open>DescribeTransitGatewayConnectPeer\<close> pages through the peers in a \<open>for\<close> loop that ends
  only when a page is empty, holds the peer, or carries no next token: the loop may run
  for ever, and \<open>None\<close> is the call that never returns.
\<close>

partial_function (option) DescribeTransitGatewayConnectPeer_loop ::
  "EC2 \<Rightarrow> string \<Rightarrow> string option \<Rightarrow> world \<Rightarrow> ((error + TransitGatewayConnectPeer option) \<times> world) option" where
  "DescribeTransitGatewayConnectPeer_loop conn transitGatewayConnectPeerID token w =
     (case invoke OpDescribeTransitGatewayConnectPeers
             (\<lambda>c. DescribeTransitGatewayConnectPeers conn c
                     \<lparr>TransitGatewayConnectPeerIds = [transitGatewayConnectPeerID], req_NextToken = token\<rparr>) w of
        (Inl err, w') \<Rightarrow> Some (Inl err, w')
      | (Inr None, w') \<Rightarrow> Some (Inr None, w')
      | (Inr (Some output), w') \<Rightarrow>
          if length (TransitGatewayConnectPeers output) = 0 then Some (Inr None, w')
          else
            (case find (\<lambda>p. case p of
                              None \<Rightarrow> False
                            | Some transitGatewayConnectPeer \<Rightarrow>
                                StringValue (TransitGatewayConnectPeerId transitGatewayConnectPeer)
                                  = transitGatewayConnectPeerID)
                    (TransitGatewayConnectPeers output) of
               Some transitGatewayConnectPeer \<Rightarrow> Some (Inr transitGatewayConnectPeer, w')
             | None \<Rightarrow>
                 if StringValue (NextToken output) = '''' then Some (Inr None, w')
                 else DescribeTransitGatewayConnectPeer_loop conn transitGatewayConnectPeerID (NextToken output) w'))"

declare DescribeTransitGatewayConnectPeer_loop.simps [code]

definition DescribeTransitGatewayConnectPeer ::
  "EC2 \<Rightarrow> string \<Rightarrow> world \<Rightarrow> ((error + TransitGatewayConnectPeer option) \<times> world) option" where
  "DescribeTransitGatewayConnectPeer conn transitGatewayConnectPeerID w =
     DescribeTransitGatewayConnectPeer_loop conn transitGatewayConnectPeerID None w"

definition transitGatewayConnectPeerRefreshFunc ::
  "EC2 \<Rightarrow> string \<Rightarrow> (TransitGatewayConnectPeer option, world) StateRefreshFunc" where
  "transitGatewayConnectPeerRefreshFunc conn transitGatewayConnectPeerID w =
     (case DescribeTransitGatewayConnectPeer conn transitGatewayConnectPeerID w of
        None \<Rightarrow> None
      | Some (res, w') \<Rightarrow>
          if ErrMessageContains (case res of Inl err \<Rightarrow> Some err | Inr p \<Rightarrow> None)
               ''InvalidTransitGatewayConnectPeerID.NotFound'' ''''
          then Some (Inr (None, TransitGatewayConnectPeerStateDeleted), w')
          else
            (case res of
               Inl err \<Rightarrow>
                 Some (Inl (Errorf ''error reading EC2 Transit Gateway Connect Peer (%s): %s''
                              [ArgS transitGatewayConnectPeerID, ArgE err]), w')
             | Inr None \<Rightarrow> Some (Inr (None, TransitGatewayConnectPeerStateDeleted), w')
             | Inr (Some transitGatewayConnectPeer) \<Rightarrow>
                 Some (Inr (Some transitGatewayConnectPeer, StringValue (peer_State transitGatewayConnectPeer)), w')))"

definition waitForTransitGatewayConnectPeerCreation ::
  "sdk \<Rightarrow> EC2 \<Rightarrow> string \<Rightarrow> world \<Rightarrow> (error option \<times> world) option" where
  "waitForTransitGatewayConnectPeerCreation fw conn transitGatewayConnectPeerID w =
     (let stateConf =
            \<lparr>Delay = 0,
             Pending = States [TransitGatewayConnectPeerStatePending],
             Target = [TransitGatewayConnectPeerStateAvailable],
             Timeout = 10 * 60,
             MinTimeout = 0, PollInterval = 0, NotFoundChecks = 0, ContinuousTargetOccurence = 0\<rparr>
      in case WaitForState stateConf (backoff fw)
                (transitGatewayConnectPeerRefreshFunc conn transitGatewayConnectPeerID) w of
           None \<Rightarrow> None
         | Some ((v, err), w') \<Rightarrow> Some (err, w'))"

definition WaitForTransitGatewayConnectPeerDeletion ::
  "sdk \<Rightarrow> EC2 \<Rightarrow> string \<Rightarrow> world \<Rightarrow> (error option \<times> world) option" where
  "WaitForTransitGatewayConnectPeerDeletion fw conn transitGatewayConnectPeerID w =
     (let stateConf =
            \<lparr>Delay = 0,
             Pending = States [TransitGatewayConnectPeerStateAvailable, TransitGatewayConnectPeerStateDeleting],
             Target = [TransitGatewayConnectPeerStateDeleted],
             Timeout = 10 * 60,
             MinTimeout = 0, PollInterval = 0,
             NotFoundChecks = 1,
             ContinuousTargetOccurence = 0\<rparr>
      in case WaitForState stateConf (backoff fw)
                (transitGatewayConnectPeerRefreshFunc conn transitGatewayConnectPeerID) w of
           None \<Rightarrow> None
         | Some ((v, err), w') \<Rightarrow> if NotFound err then Some (None, w') else Some (err, w'))"

section \<open>SQS: waiting for queue attributes and for deletion\<close>


definition queueCreatedTimeout :: nat where
  "queueCreatedTimeout = 70"

definition queueDeletedTimeout :: nat where
  "queueDeletedTimeout = 15"

definition queueStateExists :: string where
  "queueStateExists = ''exists''"

text \<open>\<open>strconv.Itoa\<close>: the decimal rendering of an integer.\<close>

definition digit :: "nat \<Rightarrow> char" where
  "digit n = ''0123456789'' ! (n mod 10)"

fun FormatUint :: "nat \<Rightarrow> string" where
  "FormatUint n = (if n < 10 then [digit n] else FormatUint (n div 10) @ [digit n])"

definition Itoa :: "int \<Rightarrow> string" where
  "Itoa i = (if i < 0 then CHR ''-'' # FormatUint (nat (- i)) else FormatUint (nat i))"

text \<open>Attribute names of the SQS API (constants of the AWS SDK).\<close>

definition QueueAttributeNamePolicy :: string where
  "QueueAttributeNamePolicy = ''Policy''"

definition QueueAttributeNameRedrivePolicy :: string where
  "QueueAttributeNameRedrivePolicy = ''RedrivePolicy''"

definition QueueAttributeNameKmsDataKeyReusePeriodSeconds :: string where
  "QueueAttributeNameKmsDataKeyReusePeriodSeconds = ''KmsDataKeyReusePeriodSeconds''"

text \<open>
  What \<open>waitQueueAttributesPropagated\<close> uses and src/ does not hold: the policy
  comparison of the imported \<open>awspolicy\<close> package, the package's own \<open>StringsEquivalent\<close>,
  the constant \<open>DefaultQueueKMSDataKeyReusePeriodSeconds\<close>.  They are parameters.
\<close>

record sqs_deps =
  PoliciesAreEquivalent :: "string \<Rightarrow> string \<Rightarrow> error + bool"
  StringsEquivalent :: "string \<Rightarrow> string \<Rightarrow> bool"
  DefaultQueueKMSDataKeyReusePeriodSeconds :: int

text \<open>
  The closure \<open>attributesMatch\<close> of \<open>waitQueueAttributesPropagated\<close>.  The expected
  attributes are a Go map; the list gives its entries in the order the \<open>range\<close> loop
  happens to visit them.  The fetched attributes are a map.  \<open>None\<close> is the nil error.
\<close>

fun attributesMatch ::
  "sqs_deps \<Rightarrow> (string \<times> string) list \<Rightarrow> (string \<rightharpoonup> string) \<Rightarrow> error option" where
  "attributesMatch deps [] got = None"
| "attributesMatch deps ((k, e) # expected) got =
     (case got k of
        None \<Rightarrow>
          if e = '''' then attributesMatch deps expected got
          else if k = QueueAttributeNameKmsDataKeyReusePeriodSeconds
                  \<and> e = Itoa (DefaultQueueKMSDataKeyReusePeriodSeconds deps)
          then attributesMatch deps expected got
          else Some (Errorf ''SQS Queue attribute (%s) not available'' [ArgS k])
      | Some g \<Rightarrow>
          if k = QueueAttributeNamePolicy then
            (case PoliciesAreEquivalent deps g e of
               Inl err \<Rightarrow> Some err
             | Inr equivalent \<Rightarrow>
                 if \<not> equivalent then Some (Errorf ''SQS Queue policies are not equivalent'' [])
                 else attributesMatch deps expected got)
          else if k = QueueAttributeNameRedrivePolicy then
            (if \<not> StringsEquivalent deps g e
             then Some (Errorf ''SQS Queue redrive policies are not equivalent'' [])
             else attributesMatch deps expected got)
          else
            (if g \<noteq> e
             then Some (Errorf ''SQS Queue attribute (%s) got: %s, expected: %s'' [ArgS k, ArgS g, ArgS e])
             else attributesMatch deps expected got))"

text \<open>
  The two helpers of package \<open>sqs\<close> that read the queue and are not under src/; they take
  the client (of any type \<open>'c\<close>, the source only passes it on) and the queue URL.
\<close>

record 'c sqs_helpers =
  FindQueueAttributesByURL :: "'c \<Rightarrow> string \<Rightarrow> nat \<Rightarrow> (error + (string \<rightharpoonup> string)) \<times> api_op list"
  statusQueueState :: "'c \<Rightarrow> string \<Rightarrow> nat \<Rightarrow> (error + unit \<times> string) \<times> api_op list"



definition waitQueueDeleted_conf :: StateChangeConf where
  "waitQueueDeleted_conf =
     \<lparr>Delay = 0,
      Pending = States [queueStateExists],
      Target = [],
      Timeout = queueDeletedTimeout,
      MinTimeout = 0, PollInterval = 0, NotFoundChecks = 0,
      ContinuousTargetOccurence = 3\<rparr>"

definition waitQueueDeleted ::
  "sdk \<Rightarrow> 'c sqs_helpers \<Rightarrow> 'c \<Rightarrow> string \<Rightarrow> world \<Rightarrow> (error option \<times> world) option" where
  "waitQueueDeleted fw hs conn url w =
     (case WaitForState waitQueueDeleted_conf (backoff fw)
             (\<lambda>w'. Some (invoke_helper (statusQueueState hs conn url) w')) w of
        None \<Rightarrow> None
      | Some ((v, err), w') \<Rightarrow> Some (err, w'))"

section \<open>Elasticsearch: domain policy\<close>

text \<open>
  The domain status the source reads (\<open>out.DomainStatus\<close>, taken as present, as is its
  \<open>Processing\<close> flag), the client, and the two JSON helpers that are not under src/.
\<close>

record ElasticsearchDomainStatus =
  Processing :: bool
  AccessPolicies :: "string option"

record ElasticsearchService =
  UpdateElasticsearchDomainConfig :: "nat \<Rightarrow> string \<Rightarrow> string \<Rightarrow> error option"
  DescribeElasticsearchDomain :: "nat \<Rightarrow> string \<Rightarrow> error + ElasticsearchDomainStatus"

record es_helpers =
  NormalizeJsonString :: "string \<Rightarrow> string \<times> error option"
  PolicyToSet :: "string \<Rightarrow> string \<Rightarrow> error + string"

definition resourceDomainPolicyRead ::
  "sdk \<Rightarrow> es_helpers \<Rightarrow> ResourceData \<Rightarrow> ElasticsearchService \<Rightarrow> world
     \<Rightarrow> error option \<times> ResourceData \<times> world" where
  "resourceDomainPolicyRead fw hs d conn w =
     (let name = GetString d ''domain_name''
      in case invoke OpDescribeElasticsearchDomain (\<lambda>c. DescribeElasticsearchDomain conn c name) w of
           (Inl err, w1) \<Rightarrow>
             (case err of
                AwsError code message \<Rightarrow>
                  if code = ''ResourceNotFoundException'' then (None, SetId '''' d, w1)
                  else (Some err, d, w1)
              | _ \<Rightarrow> (Some err, d, w1))
         | (Inr ds, w1) \<Rightarrow>
             (case PolicyToSet hs (GetString d ''access_policies'') (StringValue (AccessPolicies ds)) of
                Inl err \<Rightarrow> (Some err, d, w1)
              | Inr policies \<Rightarrow> (None, snd (d_Set fw ''access_policies'' (VString policies) d), w1)))"

text \<open>
  The function literal that \<open>resourceDomainPolicyUpsert\<close> and \<open>resourceDomainPolicyDelete\<close>
  hand to \<open>resource.Retry\<close>; the two differ in the message of the retryable error only.
\<close>

definition resourceDomainPolicy_retry ::
  "ElasticsearchService \<Rightarrow> string \<Rightarrow> string \<Rightarrow> ResourceData \<Rightarrow> world \<Rightarrow> RetryError option \<times> world" where
  "resourceDomainPolicy_retry conn domainName message d w =
     (case invoke OpDescribeElasticsearchDomain (\<lambda>c. DescribeElasticsearchDomain conn c domainName) w of
        (Inl err, w') \<Rightarrow> (Some (NonRetryableError err), w')
      | (Inr out, w') \<Rightarrow>
          if \<not> Processing out then (None, w')
          else (Some (RetryableError (Errorf message [ArgS (d_Id d)])), w'))"

definition resourceDomainPolicyUpsert ::
  "sdk \<Rightarrow> es_helpers \<Rightarrow> ResourceData \<Rightarrow> ElasticsearchService \<Rightarrow> world
     \<Rightarrow> (error option \<times> ResourceData \<times> world) option" where
  "resourceDomainPolicyUpsert fw hs d conn w =
     (let domainName = GetString d ''domain_name''
      in case NormalizeJsonString hs (GetString d ''access_policies'') of
           (policy, Some err) \<Rightarrow>
             Some (Some (Errorf ''policy (%s) is invalid JSON: %w'' [ArgS policy, ArgE err]), d, w)
         | (policy, None) \<Rightarrow>
             (case invoke OpUpdateElasticsearchDomainConfig
                     (\<lambda>c. UpdateElasticsearchDomainConfig conn c domainName policy) w of
                (Some err, w1) \<Rightarrow> Some (Some err, d, w1)
              | (None, w1) \<Rightarrow>
                  (let d1 = SetId (''esd-policy-'' @ domainName) d
                   in case Retry (50 * 60) (backoff fw)
                             (resourceDomainPolicy_retry conn domainName
                                ''%q: Timeout while waiting for changes to be processed'' d1) w1 of
                        None \<Rightarrow> None
                      | Some (err, w2) \<Rightarrow>
                          (let upsert_end = (\<lambda>err' w'.
                                 case err' of
                                   Some e \<Rightarrow>
                                     (Some (Errorf ''Error upserting Elasticsearch domain policy: %s'' [ArgE e]), d1, w')
                                 | None \<Rightarrow> resourceDomainPolicyRead fw hs d1 conn w')
                           in if TimedOut err then
                                (case invoke OpDescribeElasticsearchDomain
                                        (\<lambda>c. DescribeElasticsearchDomain conn c domainName) w2 of
                                   (Inl err', w3) \<Rightarrow> Some (upsert_end (Some err') w3)
                                 | (Inr out, w3) \<Rightarrow>
                                     if \<not> Processing out then Some (None, d1, w3)
                                     else Some (upsert_end None w3))
                              else Some (upsert_end err w2)))))"

definition resourceDomainPolicyDelete ::
  "sdk \<Rightarrow> ResourceData \<Rightarrow> ElasticsearchService \<Rightarrow> world \<Rightarrow> (error option \<times> ResourceData \<times> world) option" where
  "resourceDomainPolicyDelete fw d conn w =
     (case invoke OpUpdateElasticsearchDomainConfig
             (\<lambda>c. UpdateElasticsearchDomainConfig conn c (GetString d ''domain_name'') '''') w of
        (Some err, w1) \<Rightarrow> Some (Some err, d, w1)
      | (None, w1) \<Rightarrow>
          (case Retry (60 * 60) (backoff fw)
                  (resourceDomainPolicy_retry conn (GetString d ''domain_name'')
                     ''%q: Timeout while waiting for policy to be deleted'' d) w1 of
             None \<Rightarrow> None
           | Some (err, w2) \<Rightarrow>
               (let delete_end = (\<lambda>w'.
                      case err of
                        Some e \<Rightarrow>
                          (Some (Errorf ''Error deleting Elasticsearch domain policy: %s'' [ArgE e]), d, w')
                      | None \<Rightarrow> (None, d, w'))
                in if TimedOut err then
                     (case invoke OpDescribeElasticsearchDomain
                             (\<lambda>c. DescribeElasticsearchDomain conn c (GetString d ''domain_name'')) w2 of
                        (Inl err', w3) \<Rightarrow> Some (delete_end w3)
                      | (Inr out, w3) \<Rightarrow>
                          if \<not> Processing out then Some (None, d, w3)
                          else Some (delete_end w3))
                   else Some (delete_end w2))))"

section \<open>Read-only helpers\<close>

text \<open>
  Some properties below hold when the helpers that only look things up make no mutating
  call.  \<open>read_only h\<close>: whenever it is called, the helper \<open>h\<close> makes no mutating call.
\<close>

definition read_only :: "(nat \<Rightarrow> 'r \<times> api_op list) \<Rightarrow> bool" where
  "read_only h = (\<forall>c. filter mutating (snd (h c)) = [])"

definition read_only_lookups :: "ec2_helpers \<Rightarrow> EC2 \<Rightarrow> bool" where
  "read_only_lookups hs conn =
     ((\<forall>vpcId. read_only (vpcDescribe hs conn vpcId))
      \<and> (\<forall>attachmentId. read_only (waitForTransitGatewayAttachmentCreation hs conn attachmentId))
      \<and> (\<forall>attachmentId. read_only (WaitForTransitGatewayAttachmentDeletion hs conn attachmentId))
      \<and> (\<forall>attachmentId. read_only (DescribeTransitGatewayConnect hs conn attachmentId))
      \<and> (\<forall>attachmentId. read_only (DescribeTransitGatewayAttachment hs conn attachmentId))
      \<and> (\<forall>gatewayId. read_only (DescribeTransitGateway hs conn gatewayId))
      \<and> (\<forall>routeTableId attachmentId.
            read_only (DescribeTransitGatewayRouteTableAssociation hs conn routeTableId attachmentId))
      \<and> (\<forall>routeTableId attachmentId.
            read_only (FindTransitGatewayRouteTablePropagation hs conn routeTableId attachmentId)))"

definition read_only_updates :: "ec2_helpers \<Rightarrow> EC2 \<Rightarrow> bool" where
  "read_only_updates hs conn =
     ((\<forall>routeTableId attachmentId b.
         read_only (transitGatewayRouteTableAssociationUpdate hs conn routeTableId attachmentId b))
      \<and> (\<forall>routeTableId attachmentId b.
            read_only (transitGatewayRouteTablePropagationUpdate hs conn routeTableId attachmentId b)))"

text \<open>
  \<open>starts_with op w w'\<close>: the first call made after the world \<open>w\<close>, on the way to \<open>w'\<close>, is
  \<open>op\<close>.  \<open>one_mutation op w w'\<close>: moreover \<open>op\<close> is the only mutating call made between the
  two.
\<close>

definition starts_with :: "api_op \<Rightarrow> world \<Rightarrow> world \<Rightarrow> bool" where
  "starts_with op w w' = (take (Suc (length w)) w' = w @ [op])"

definition one_mutation :: "api_op \<Rightarrow> world \<Rightarrow> world \<Rightarrow> bool" where
  "one_mutation op w w' = (starts_with op w w' \<and> mutations w' = mutations w @ [op])"

text \<open>
  \<open>grows ro w w'\<close>: the world \<open>w'\<close> is \<open>w\<close> with further calls appended, none of them
  mutating when \<open>ro\<close> holds.
\<close>

definition grows :: "bool \<Rightarrow> world \<Rightarrow> world \<Rightarrow> bool" where
  "grows ro w w' = (take (length w) w' = w \<and> (ro \<longrightarrow> mutations w' = mutations w))"

section \<open>Example environments\<close>

text \<open>Concrete dependencies and remote behaviours, on which the theorems below are run.\<close>

definition demo_sqs_deps :: sqs_deps where
  "demo_sqs_deps =
     \<lparr>PoliciesAreEquivalent = (\<lambda>g e. Inr (g = e)),
      StringsEquivalent = (\<lambda>g e. g = e),
      DefaultQueueKMSDataKeyReusePeriodSeconds = 300\<rparr>"

definition demo_sdk :: sdk where
  "demo_sdk = \<lparr>backoff = (\<lambda>k. 5), SetError = (\<lambda>k v. None)\<rparr>"



text \<open>
  An EC2 side with one VPC \<open>vpc-1\<close> and one CIDR block association \<open>vpc-cidr-assoc-1\<close>,
  whose state at each moment is given by \<open>st\<close>; the association call answers \<open>assoc\<close>, the
  disassociation call \<open>disassoc\<close>.  The transit gateway operations answer for one connect
  attachment \<open>tgw-attach-1\<close>; deleting it answers \<open>del\<close>.
\<close>

definition demo_association :: "string \<Rightarrow> VpcCidrBlockAssociation" where
  "demo_association s =
     \<lparr>AssociationId = Some ''vpc-cidr-assoc-1'', CidrBlock = Some ''10.1.0.0/16'', CidrBlockState = Some s\<rparr>"

definition demo_vpc :: "string \<Rightarrow> Vpc" where
  "demo_vpc s = \<lparr>VpcId = Some ''vpc-1'', CidrBlockAssociationSet = [demo_association s]\<rparr>"

definition demo_connect :: "string \<Rightarrow> TransitGatewayConnect" where
  "demo_connect s =
     \<lparr>TransitGatewayAttachmentId = Some ''tgw-attach-1'', connect_State = Some s,
      TransitGatewayId = Some ''tgw-1'', TransportTransitGatewayAttachmentId = Some ''tgw-attach-0'',
      connect_Tags = [(''Name'', ''demo'')]\<rparr>"

definition demo_EC2 ::
  "(nat \<Rightarrow> error + VpcCidrBlockAssociation) \<Rightarrow> (nat \<Rightarrow> error + Vpc option list option)
     \<Rightarrow> (nat \<Rightarrow> error option) \<Rightarrow> (nat \<Rightarrow> error option)
     \<Rightarrow> (nat \<Rightarrow> string option \<Rightarrow> error + DescribeTransitGatewayConnectPeersOutput option) \<Rightarrow> EC2" where
  "demo_EC2 assoc vpcs disassoc del peers =
     \<lparr>AssociateVpcCidrBlock = (\<lambda>c req. assoc c),
      DescribeVpcs = (\<lambda>c filters. vpcs c),
      DisassociateVpcCidrBlock = (\<lambda>c associationId. disassoc c),
      CreateTransitGatewayConnect = (\<lambda>c input. Inr (demo_connect ''pending'')),
      DeleteTransitGatewayConnect = (\<lambda>c attachmentId. del c),
      DescribeTransitGatewayConnectPeers = (\<lambda>c input. peers c (req_NextToken input))\<rparr>"

definition demo_meta :: "EC2 \<Rightarrow> AWSClient" where
  "demo_meta conn =
     \<lparr>EC2Conn = conn, MergeTags = (\<lambda>tags. tags), IgnoreTags = (\<lambda>tags. tags),
      RemoveDefaultConfig = (\<lambda>tags. tags)\<rparr>"

text \<open>
  Helpers for the example: \<open>vpcDescribe\<close> answers \<open>vpc\<close> through one read call, the transit
  gateway lookups answer for a gateway \<open>tgw-1\<close> owned by account \<open>111\<close> and an attachment
  owned by \<open>owner\<close>, \<open>DescribeTransitGatewayConnect\<close> answers \<open>connect\<close>; the waits succeed
  after one read, the two route table updates make one mutating call each.
\<close>

definition demo_helpers ::
  "(nat \<Rightarrow> error + Vpc option) \<Rightarrow> (nat \<Rightarrow> error + TransitGatewayConnect option) \<Rightarrow> string \<Rightarrow> ec2_helpers" where
  "demo_helpers vpc connect owner =
     \<lparr>vpcDescribe = (\<lambda>conn vpcId c. (vpc c, [OpDescribeVpcs])),
      waitForTransitGatewayAttachmentCreation =
        (\<lambda>conn attachmentId c. (None, [OpOther ''DescribeTransitGatewayAttachments'' False])),
      WaitForTransitGatewayAttachmentDeletion =
        (\<lambda>conn attachmentId c. (None, [OpOther ''DescribeTransitGatewayAttachments'' False])),
      DescribeTransitGatewayConnect =
        (\<lambda>conn attachmentId c. (connect c, [OpOther ''DescribeTransitGatewayConnects'' False])),
      DescribeTransitGatewayAttachment =
        (\<lambda>conn attachmentId c.
           (Inr (Some \<lparr>attachment_TransitGatewayId = Some ''tgw-1'', ResourceOwnerId = Some owner\<rparr>),
            [OpOther ''DescribeTransitGatewayAttachments'' False])),
      DescribeTransitGateway =
        (\<lambda>conn gatewayId c.
           (Inr \<lparr>OwnerId = Some ''111'',
                 Options = Some \<lparr>AssociationDefaultRouteTableId = Some ''rtb-a'',
                                 PropagationDefaultRouteTableId = Some ''rtb-p''\<rparr>\<rparr>,
            [OpOther ''DescribeTransitGateways'' False])),
      transitGatewayRouteTableAssociationUpdate =
        (\<lambda>conn routeTableId attachmentId associate c.
           (None, [OpOther ''GetTransitGatewayRouteTableAssociations'' False,
                   OpOther ''AssociateTransitGatewayRouteTable'' True])),
      transitGatewayRouteTablePropagationUpdate =
        (\<lambda>conn routeTableId attachmentId enable c.
           (None, [OpOther ''GetTransitGatewayRouteTablePropagations'' False,
                   OpOther ''EnableTransitGatewayRouteTablePropagation'' True])),
      DescribeTransitGatewayRouteTableAssociation =
        (\<lambda>conn routeTableId attachmentId c.
           (Inr True, [OpOther ''GetTransitGatewayRouteTableAssociations'' False])),
      FindTransitGatewayRouteTablePropagation =
        (\<lambda>conn routeTableId attachmentId c.
           (Inr True, [OpOther ''GetTransitGatewayRouteTablePropagations'' False])),
      UpdateTags = (\<lambda>conn resourceId old new c. (None, [OpOther ''CreateTags'' True]))\<rparr>"

definition demo_d :: ResourceData where
  "demo_d =
     \<lparr>d_Id = '''',
      attrs = [''vpc_id'' \<mapsto> VString ''vpc-1'', ''cidr_block'' \<mapsto> VString ''10.1.0.0/16'',
               ''transport_attachment_id'' \<mapsto> VString ''tgw-attach-0'',
               ''transit_gateway_default_route_table_association'' \<mapsto> VBool True,
               ''transit_gateway_default_route_table_propagation'' \<mapsto> VBool True],
      prior = Map.empty,
      TimeoutCreate = 600, TimeoutDelete = 600\<rparr>"

text \<open>
  Three runs.  In \<open>demo_failing\<close> the association is \<open>associating\<close> at first and \<open>failed\<close>
  from the third call on; in \<open>demo_stuck\<close> it stays \<open>associating\<close>.  \<open>demo_conn\<close> accepts
  every call; \<open>demo_gone_conn\<close> is the remote side after the objects were deleted: both
  delete calls answer with the not-found error, and no VPC is described.
\<close>

definition demo_failing :: ec2_helpers where
  "demo_failing =
     demo_helpers (\<lambda>c. Inr (Some (demo_vpc (if c < 2 then ''associating'' else ''failed''))))
       (\<lambda>c. Inr (Some (demo_connect ''available''))) ''111''"

definition demo_wait_timeout :: ec2_helpers where
  "demo_wait_timeout =
     demo_failing\<lparr>waitForTransitGatewayAttachmentCreation :=
        (\<lambda>conn attachmentId c.
           (Some (TimeoutError ''pending''), [OpOther ''DescribeTransitGatewayAttachments'' False]))\<rparr>"

definition demo_conn :: EC2 where
  "demo_conn =
     demo_EC2 (\<lambda>c. Inr (demo_association ''associating''))
       (\<lambda>c. Inr (Some [Some (demo_vpc ''associated'')])) (\<lambda>c. None) (\<lambda>c. None) (\<lambda>c t. Inr None)"

definition demo_gone_conn :: EC2 where
  "demo_gone_conn =
     demo_EC2 (\<lambda>c. Inl (AwsError ''InvalidVpcID.NotFound'' ''The vpc ID does not exist''))
       (\<lambda>c. Inr (Some []))
       (\<lambda>c. Some (AwsError ''InvalidVpcID.NotFound'' ''The vpc ID does not exist''))
       (\<lambda>c. Some (AwsError ''InvalidTransitGatewayAttachmentID.NotFound'' ''no such attachment''))
       (\<lambda>c t. Inl (AwsError ''InvalidTransitGatewayConnectPeerID.NotFound'' ''no such peer''))"

definition demo_gone :: ec2_helpers where
  "demo_gone = demo_helpers (\<lambda>c. Inr None) (\<lambda>c. Inr None) ''111''"

text \<open>
  \<open>demo_pages_conn\<close> lists the connect peers on two pages, neither of which holds
  \<open>peer-1\<close>.  With \<open>demo_vpc_not_found\<close> the helper \<open>vpcDescribe\<close> fails with a not-found
  error.
\<close>

definition demo_pages_conn :: EC2 where
  "demo_pages_conn =
     demo_EC2 (\<lambda>c. Inr (demo_association ''associating'')) (\<lambda>c. Inr None) (\<lambda>c. None) (\<lambda>c. None)
       (\<lambda>c token.
          if token = None
          then Inr (Some \<lparr>TransitGatewayConnectPeers =
                            [Some \<lparr>TransitGatewayConnectPeerId = Some ''peer-0'', peer_State = Some ''available''\<rparr>],
                          NextToken = Some ''page-2''\<rparr>)
          else Inr (Some \<lparr>TransitGatewayConnectPeers = [None], NextToken = None\<rparr>))"

definition demo_vpc_not_found :: ec2_helpers where
  "demo_vpc_not_found =
     demo_helpers (\<lambda>c. Inl (AwsError ''InvalidVpcID.NotFound'' ''The vpc ID does not exist''))
       (\<lambda>c. Inr None) ''111''"

text \<open>
  With \<open>demo_settled\<close> the default route tables are as configured already: the two update
  helpers look the association and the propagation up and change nothing.
\<close>

definition demo_settled :: ec2_helpers where
  "demo_settled =
     demo_failing
       \<lparr>transitGatewayRouteTableAssociationUpdate :=
          (\<lambda>conn routeTableId attachmentId associate c.
             (None, [OpOther ''GetTransitGatewayRouteTableAssociations'' False])),
        transitGatewayRouteTablePropagationUpdate :=
          (\<lambda>conn routeTableId attachmentId enable c.
             (None, [OpOther ''GetTransitGatewayRouteTablePropagations'' False]))\<rparr>"





section \<open>Properties of the poller\<close>

declare poll.simps [simp del]

lemma poll_cases:
  assumes "poll conf bk refresh t k cnt w = Some (out, obs, w')"
  obtains
    (refresh_error) err where "refresh w = Some (Inl err, w')"
      "out = Failure RefreshError [] (Some err)" "obs = [Inl err]"
  | (success) v tok where "refresh w = Some (Inr (v, tok), w')" "tok \<in> set (Target conf)"
      "occurrences conf \<le> Suc cnt" "out = Success v tok" "obs = [Inr tok]"
  | (timeout) v tok where "refresh w = Some (Inr (v, tok), w')"
      "tok \<in> set (Target conf) \<and> \<not> occurrences conf \<le> Suc cnt \<or> tok \<notin> set (Target conf) \<and> is_pending conf tok"
      "Timeout conf < t + interval conf bk k"
      "out = Failure Timeout_kind tok None" "obs = [Inr tok]"
  | (target_again) v tok w1 obs1 where "refresh w = Some (Inr (v, tok), w1)" "tok \<in> set (Target conf)"
      "\<not> occurrences conf \<le> Suc cnt" "\<not> Timeout conf < t + interval conf bk k"
      "poll conf bk refresh (t + interval conf bk k) (Suc k) (Suc cnt) w1 = Some (out, obs1, w')"
      "obs = Inr tok # obs1"
  | (pending_again) v tok w1 obs1 where "refresh w = Some (Inr (v, tok), w1)" "tok \<notin> set (Target conf)"
      "is_pending conf tok" "\<not> Timeout conf < t + interval conf bk k"
      "poll conf bk refresh (t + interval conf bk k) (Suc k) 0 w1 = Some (out, obs1, w')"
      "obs = Inr tok # obs1"
  | (unexpected) v tok where "refresh w = Some (Inr (v, tok), w')" "tok \<notin> set (Target conf)"
      "\<not> is_pending conf tok" "out = Failure UnexpectedState tok None" "obs = [Inr tok]"
  using assms
  by (subst (asm) poll.simps) (auto split: option.splits prod.splits sum.splits if_splits)


lemma poll_all_pending:
  "poll conf bk refresh t k cnt w = Some (out, obs, w') \<Longrightarrow> \<forall>ob \<in> set obs. pending_obs conf ob
   \<Longrightarrow> \<exists>tok. out = Failure Timeout_kind tok None \<and> obs \<noteq> [] \<and> last obs = Inr tok"
proof (induction conf bk refresh t k cnt w arbitrary: out obs w' rule: poll.induct)
  case (1 conf bk refresh t k cnt w)
  from "1.prems"(1) show ?case
  proof (cases rule: poll_cases)
    case (target_again v tok w1 obs1)
    with "1.prems" show ?thesis by (auto simp: pending_obs_def)
  next
    case (pending_again v tok w1 obs1)
    with "1.prems" have "\<forall>ob \<in> set obs1. pending_obs conf ob" by simp
    from "1.IH"(2)[OF pending_again(1) refl refl refl pending_again(2,3,4,5) this]
    show ?thesis using pending_again by auto
  qed (use "1.prems" in \<open>auto simp: pending_obs_def\<close>)
qed









subsection \<open>What a poll does to the world\<close>

lemma poll_world_invariant:
  "poll conf bk refresh t k cnt w = Some (out, obs, w')
   \<Longrightarrow> (\<And>w r w1. P w \<Longrightarrow> refresh w = Some (r, w1) \<Longrightarrow> P w1) \<Longrightarrow> P w \<Longrightarrow> P w'"
proof (induction conf bk refresh t k cnt w arbitrary: out obs w' rule: poll.induct)
  case (1 conf bk refresh t k cnt w)
  note step = "1.prems"(2)
  from "1.prems"(1) show ?case
  proof (cases rule: poll_cases)
    case (target_again v tok w1 obs1)
    from step[OF "1.prems"(3) target_again(1)] have "P w1" .
    from "1.IH"(1)[OF target_again(1) refl refl refl target_again(2,3,4,5) step this] show ?thesis .
  next
    case (pending_again v tok w1 obs1)
    from step[OF "1.prems"(3) pending_again(1)] have "P w1" .
    from "1.IH"(2)[OF pending_again(1) refl refl refl pending_again(2,3,4,5) step this] show ?thesis .
  qed (use step[OF "1.prems"(3)] in auto)
qed

lemma WaitForState_world_invariant:
  assumes "\<And>w r w1. P w \<Longrightarrow> refresh w = Some (r, w1) \<Longrightarrow> P w1"
    and "WaitForState conf bk refresh w = Some (res, w')" and "P w"
  shows "P w'"
  using assms(2) poll_world_invariant[where P = P and refresh = refresh, OF _ assms(1) assms(3)]
  by (auto simp: WaitForState_def WaitForState_poll_def split: option.splits prod.splits)

lemma Retry_world_invariant:
  assumes "\<And>w r w1. P w \<Longrightarrow> f w = (r, w1) \<Longrightarrow> P w1"
    and "Retry timeout bk f w = Some (err, w')" and "P w"
  shows "P w'"
proof -
  have "\<And>w r w1. P w \<Longrightarrow> retry_refresh f w = Some (r, w1) \<Longrightarrow> P w1"
    using assms(1) by (auto simp: retry_refresh_def split: prod.splits option.splits RetryError.splits)
  from WaitForState_world_invariant[where P = P, OF this _ assms(3)] assms(2) show ?thesis
    by (auto simp: Retry_def split: option.splits prod.splits)
qed

lemma mutations_append [simp]: "mutations (w @ cs) = mutations w @ mutations cs"
  by (simp add: mutations_def)

lemma invoke_world: "invoke op f w = (r, w1) \<Longrightarrow> w1 = w @ [op] \<and> r = f (length w)"
  by (auto simp: invoke_def)

lemma invoke_helper_world:
  "invoke_helper h w = (r, w1) \<Longrightarrow> w1 = w @ snd (h (length w)) \<and> r = fst (h (length w))"
  by (auto simp: invoke_helper_def)

lemma invoke_helper_read_only:
  "read_only h \<Longrightarrow> invoke_helper h w = (r, w1) \<Longrightarrow> mutations w1 = mutations w"
  by (auto simp: invoke_helper_def read_only_def mutations_def)

subsection \<open>Evaluating the examples\<close>

lemmas model_defs =
  invoke_def invoke_helper_def StringValue_def SetId_def d_Set_def GetString_def GetBool_def GetTags_def
  GetOkString_def GetOkInt_def HasChange_def GetChange_def
  WaitForState_def WaitForState_poll_def outcome_error_def outcome_value_def
  occurrences_def interval_def is_pending_def
  VpcCidrBlockStateCodeAssociating_def VpcCidrBlockStateCodeAssociated_def
  VpcCidrBlockStateCodeDisassociating_def VpcCidrBlockStateCodeDisassociated_def
  VpcCidrBlockStateCodeDeleted_def TransitGatewayAttachmentStateDeleting_def
  TransitGatewayAttachmentStateDeleted_def TransitGatewayConnectPeerStatePending_def
  TransitGatewayConnectPeerStateAvailable_def TransitGatewayConnectPeerStateDeleting_def
  TransitGatewayConnectPeerStateDeleted_def

lemmas demo_defs =
  demo_sdk_def demo_association_def demo_vpc_def demo_connect_def demo_EC2_def demo_meta_def
  demo_helpers_def demo_d_def demo_failing_def demo_wait_timeout_def demo_conn_def
  demo_gone_conn_def demo_gone_def demo_pages_conn_def demo_vpc_not_found_def demo_settled_def

subsection \<open>Missing queue attributes\<close>

lemma attributesMatch_missing:
  assumes "got k = None"
  shows "attributesMatch deps ((k, e) # expected) got =
     (if e = '''' \<or> (k = QueueAttributeNameKmsDataKeyReusePeriodSeconds
                       \<and> e = Itoa (DefaultQueueKMSDataKeyReusePeriodSeconds deps))
      then attributesMatch deps expected got
      else Some (Errorf ''SQS Queue attribute (%s) not available'' [ArgS k]))"
  apply (subst attributesMatch.simps)
  apply (simp only: assms option.case)
  apply (cases "e = ''''")
   apply (simp only: if_True simp_thms)
  apply (cases "k = QueueAttributeNameKmsDataKeyReusePeriodSeconds
                       \<and> e = Itoa (DefaultQueueKMSDataKeyReusePeriodSeconds deps)")
   apply (simp only: if_True if_False simp_thms)
  apply (simp only: if_True if_False simp_thms)
  done

lemma attributesMatch_fails_later:
  "attributesMatch deps expected got \<noteq> None \<Longrightarrow> attributesMatch deps ((k', e') # expected) got \<noteq> None"
  apply (subst attributesMatch.simps)
  apply (cases "got k'")
   apply (simp only: option.case split: if_split)
   apply blast
  apply (simp only: option.case split: if_split sum.split)
  apply blast
  done

lemma attributesMatch_missing_rejected:
  assumes "got k = None"
    and "\<not> (e = '''' \<or> (k = QueueAttributeNameKmsDataKeyReusePeriodSeconds
                           \<and> e = Itoa (DefaultQueueKMSDataKeyReusePeriodSeconds deps)))"
  shows "(k, e) \<in> set expected \<Longrightarrow> attributesMatch deps expected got \<noteq> None"
proof (induction expected)
  case Nil
  then show ?case by simp
next
  case (Cons a expected)
  show ?case
  proof (cases "a = (k, e)")
    case True
    have "attributesMatch deps ((k, e) # expected) got
            = Some (Errorf ''SQS Queue attribute (%s) not available'' [ArgS k])"
      by (simp only: attributesMatch_missing[where got = got and k = k, OF assms(1)] assms(2) if_False)
    then show ?thesis unfolding True by (simp only: option.distinct not_False_eq_True)
  next
    case False
    with Cons.prems have "(k, e) \<in> set expected" by simp
    from Cons.IH[OF this] have "attributesMatch deps ((fst a, snd a) # expected) got \<noteq> None"
      by (rule attributesMatch_fails_later)
    then show ?thesis unfolding prod.collapse .
  qed
qed

text \<open>
  C9.  In \<open>attributesMatch\<close>, a key \<open>k\<close> with expected value \<open>e\<close> that is missing from the
  fetched attributes is accepted exactly when \<open>e\<close> is empty, or \<open>k\<close> is the KMS data key
  reuse period attribute and \<open>e\<close> is the decimal rendering of
  \<open>DefaultQueueKMSDataKeyReusePeriodSeconds\<close>.  An accepted key is skipped (the comparison
  goes on with the other keys); any other missing key ends the comparison with the error
  ``attribute not available'', and wherever such a key stands in the expected map, the
  comparison fails.
\<close>

theorem attributesMatch_missing_key:
  assumes "got k = None"
  shows "(attributesMatch deps [(k, e)] got = None
            \<longleftrightarrow> e = '''' \<or> (k = QueueAttributeNameKmsDataKeyReusePeriodSeconds
                              \<and> e = Itoa (DefaultQueueKMSDataKeyReusePeriodSeconds deps)))
       \<and> (e = '''' \<or> (k = QueueAttributeNameKmsDataKeyReusePeriodSeconds
                        \<and> e = Itoa (DefaultQueueKMSDataKeyReusePeriodSeconds deps))
            \<longrightarrow> attributesMatch deps ((k, e) # expected) got = attributesMatch deps expected got)
       \<and> (\<not> (e = '''' \<or> (k = QueueAttributeNameKmsDataKeyReusePeriodSeconds
                           \<and> e = Itoa (DefaultQueueKMSDataKeyReusePeriodSeconds deps)))
            \<longrightarrow> attributesMatch deps ((k, e) # expected) got
                  = Some (Errorf ''SQS Queue attribute (%s) not available'' [ArgS k])
                \<and> (\<forall>expected'. (k, e) \<in> set expected' \<longrightarrow> attributesMatch deps expected' got \<noteq> None))"
proof (intro conjI impI allI)
  show "(attributesMatch deps [(k, e)] got = None)
          = (e = '''' \<or> (k = QueueAttributeNameKmsDataKeyReusePeriodSeconds
                              \<and> e = Itoa (DefaultQueueKMSDataKeyReusePeriodSeconds deps)))"
    by (simp only: attributesMatch_missing[where got = got and k = k, OF assms] attributesMatch.simps(1) split: if_split)
       (simp only: simp_thms option.distinct)
next
  assume "e = '''' \<or> (k = QueueAttributeNameKmsDataKeyReusePeriodSeconds
                        \<and> e = Itoa (DefaultQueueKMSDataKeyReusePeriodSeconds deps))"
  then show "attributesMatch deps ((k, e) # expected) got = attributesMatch deps expected got"
    by (simp only: attributesMatch_missing[where got = got and k = k, OF assms] if_True)
next
  assume "\<not> (e = '''' \<or> (k = QueueAttributeNameKmsDataKeyReusePeriodSeconds
                        \<and> e = Itoa (DefaultQueueKMSDataKeyReusePeriodSeconds deps)))"
  then show "attributesMatch deps ((k, e) # expected) got
               = Some (Errorf ''SQS Queue attribute (%s) not available'' [ArgS k])"
    by (simp only: attributesMatch_missing[where got = got and k = k, OF assms] if_False)
next
  fix expected'
  assume "\<not> (e = '''' \<or> (k = QueueAttributeNameKmsDataKeyReusePeriodSeconds
                        \<and> e = Itoa (DefaultQueueKMSDataKeyReusePeriodSeconds deps)))"
    and "(k, e) \<in> set expected'"
  then show "attributesMatch deps expected' got \<noteq> None"
    using attributesMatch_missing_rejected[where got = got and k = k, OF assms] by blast
qed

lemma Itoa_300: "Itoa 300 = ''300''"
  by (simp add: Itoa_def digit_def)

theorem attributesMatch_missing_key_witness:
  "attributesMatch demo_sqs_deps [(''DelaySeconds'', '''')] Map.empty = None
   \<and> attributesMatch demo_sqs_deps [(''KmsDataKeyReusePeriodSeconds'', ''300'')] Map.empty = None
   \<and> attributesMatch demo_sqs_deps [(''KmsDataKeyReusePeriodSeconds'', ''301'')] Map.empty
       = Some (Errorf ''SQS Queue attribute (%s) not available'' [ArgS ''KmsDataKeyReusePeriodSeconds''])
   \<and> attributesMatch demo_sqs_deps [(''VisibilityTimeout'', ''300'')] Map.empty
       = Some (Errorf ''SQS Queue attribute (%s) not available'' [ArgS ''VisibilityTimeout''])
   \<and> attributesMatch demo_sqs_deps [(''DelaySeconds'', ''0''), (''VisibilityTimeout'', ''30'')]
        [''DelaySeconds'' \<mapsto> ''0''] \<noteq> None"
proof -
  have d: "DefaultQueueKMSDataKeyReusePeriodSeconds demo_sqs_deps = 300"
    by (simp add: demo_sqs_deps_def)
  have m: "([''DelaySeconds'' \<mapsto> ''0''] :: string \<rightharpoonup> string) ''VisibilityTimeout'' = None"
    by simp
  have e: "Map.empty k = None" for k :: string
    by simp
  have 1: "attributesMatch demo_sqs_deps [(''DelaySeconds'', '''')] Map.empty = None"
    using attributesMatch_missing_key[where got = Map.empty and k = "''DelaySeconds''" and deps = demo_sqs_deps and e = "''''" and expected = "[]", OF e]
    by (simp only: simp_thms)
  have 2: "attributesMatch demo_sqs_deps [(''KmsDataKeyReusePeriodSeconds'', ''300'')] Map.empty = None"
    using attributesMatch_missing_key[where got = Map.empty and k = "''KmsDataKeyReusePeriodSeconds''" and deps = demo_sqs_deps and e = "''300''" and expected = "[]", OF e]
    by (simp only: d Itoa_300 QueueAttributeNameKmsDataKeyReusePeriodSeconds_def simp_thms)
  have 3: "attributesMatch demo_sqs_deps [(''KmsDataKeyReusePeriodSeconds'', ''301'')] Map.empty
       = Some (Errorf ''SQS Queue attribute (%s) not available'' [ArgS ''KmsDataKeyReusePeriodSeconds''])"
    using attributesMatch_missing_key[where got = Map.empty and k = "''KmsDataKeyReusePeriodSeconds''" and deps = demo_sqs_deps and e = "''301''" and expected = "[]", OF e]
    by (simp add: d Itoa_300 del: attributesMatch.simps)
  have 4: "attributesMatch demo_sqs_deps [(''VisibilityTimeout'', ''300'')] Map.empty
       = Some (Errorf ''SQS Queue attribute (%s) not available'' [ArgS ''VisibilityTimeout''])"
    using attributesMatch_missing_key[where got = Map.empty and k = "''VisibilityTimeout''" and deps = demo_sqs_deps and e = "''300''" and expected = "[]", OF e]
    by (simp add: d Itoa_300 QueueAttributeNameKmsDataKeyReusePeriodSeconds_def del: attributesMatch.simps)
  have 5: "attributesMatch demo_sqs_deps [(''DelaySeconds'', ''0''), (''VisibilityTimeout'', ''30'')]
        [''DelaySeconds'' \<mapsto> ''0''] \<noteq> None"
    using attributesMatch_missing_key[where got = "[''DelaySeconds'' \<mapsto> ''0'']" and k = "''VisibilityTimeout''" and deps = demo_sqs_deps and e = "''30''" and expected = "[(''DelaySeconds'', ''0''), (''VisibilityTimeout'', ''30'')]", OF m]
    by (simp add: d Itoa_300 QueueAttributeNameKmsDataKeyReusePeriodSeconds_def del: attributesMatch.simps)
  from 1 2 3 4 5 show ?thesis by (intro conjI)
qed

subsection \<open>Timeouts\<close>








subsection \<open>Create: the identifier after a failed wait\<close>

lemma resourceTransitGatewayConnectRead_not_wait_error:
  "resourceTransitGatewayConnectRead fw hs d meta w
     = (Some (Errorf ''error waiting for EC2 Transit Gateway Connect Attachment (%s) availability: %s'' args),
        d', w') \<Longrightarrow> False"
  unfolding resourceTransitGatewayConnectRead_def resourceTransitGatewayConnectRead_set_def Let_def
  by (simp split: prod.splits sum.splits option.splits if_splits)

text \<open>
  C2 (as amended).  A Create orchestration ends in a poller failure exactly when it returns
  the error ``waiting for ...'' that wraps the poller's error.  Then the mutating call had
  succeeded, and the local state is the state before the call with the identifier set to
  the identifier that call returned: the identifier is set before the wait, and a wait
  that fails (by timeout, unexpected state or refresh error) does not reset it.  This holds
  for \<open>resourceVPCIPv4CIDRBlockAssociationCreate\<close> and for
  \<open>resourceTransitGatewayConnectCreate\<close>.
\<close>

theorem create_wait_failure_keeps_identifier:
  "(resourceVPCIPv4CIDRBlockAssociationCreate fw hs d meta w
      = Some (Some (Errorf ''Error waiting for IPv4 CIDR block association (%s) to become available: %s'' args),
              d', w')
    \<longleftrightarrow> (\<exists>resp v err.
          AssociateVpcCidrBlock (EC2Conn meta) (length w)
            \<lparr>req_VpcId = GetString d ''vpc_id'', req_CidrBlock = GetOkString d ''cidr_block'',
             req_Ipv4IpamPoolId = GetOkString d ''ipv4_ipam_pool_id'',
             req_Ipv4NetmaskLength = GetOkInt d ''ipv4_netmask_length''\<rparr> = Inr resp
          \<and> WaitForState
                \<lparr>Delay = 10, Pending = States [VpcCidrBlockStateCodeAssociating],
                 Target = [VpcCidrBlockStateCodeAssociated], Timeout = TimeoutCreate d, MinTimeout = 5,
                 PollInterval = 0, NotFoundChecks = 0, ContinuousTargetOccurence = 0\<rparr>
                (backoff fw)
                (vpcIpv4CidrBlockAssociationStateRefresh hs (EC2Conn meta) (GetString d ''vpc_id'')
                   (StringValue (AssociationId resp)))
                (w @ [OpAssociateVpcCidrBlock]) = Some ((v, Some err), w')
          \<and> d' = SetId (StringValue (AssociationId resp)) d
          \<and> args = [ArgS (StringValue (AssociationId resp)), ArgE err]))
   \<and> (resourceTransitGatewayConnectCreate fw hs d meta w
      = (Some (Errorf ''error waiting for EC2 Transit Gateway Connect Attachment (%s) availability: %s'' args),
         d', w')
    \<longleftrightarrow> (\<exists>output err.
          CreateTransitGatewayConnect (EC2Conn meta) (length w)
            \<lparr>req_Protocol = ''gre'',
             req_TransportTransitGatewayAttachmentId = GetString d ''transport_attachment_id'',
             req_TagSpecifications = MergeTags meta (GetTags d ''tags'')\<rparr> = Inr output
          \<and> invoke_helper
                (waitForTransitGatewayAttachmentCreation hs (EC2Conn meta)
                   (StringValue (TransitGatewayAttachmentId output)))
                (w @ [OpCreateTransitGatewayConnect]) = (Some err, w')
          \<and> d' = SetId (StringValue (TransitGatewayAttachmentId output)) d
          \<and> args = [ArgS (StringValue (TransitGatewayAttachmentId output)), ArgE err]))"
proof (intro conjI)
  show "resourceVPCIPv4CIDRBlockAssociationCreate fw hs d meta w
      = Some (Some (Errorf ''Error waiting for IPv4 CIDR block association (%s) to become available: %s'' args),
              d', w')
    \<longleftrightarrow> (\<exists>resp v err.
          AssociateVpcCidrBlock (EC2Conn meta) (length w)
            \<lparr>req_VpcId = GetString d ''vpc_id'', req_CidrBlock = GetOkString d ''cidr_block'',
             req_Ipv4IpamPoolId = GetOkString d ''ipv4_ipam_pool_id'',
             req_Ipv4NetmaskLength = GetOkInt d ''ipv4_netmask_length''\<rparr> = Inr resp
          \<and> WaitForState
                \<lparr>Delay = 10, Pending = States [VpcCidrBlockStateCodeAssociating],
                 Target = [VpcCidrBlockStateCodeAssociated], Timeout = TimeoutCreate d, MinTimeout = 5,
                 PollInterval = 0, NotFoundChecks = 0, ContinuousTargetOccurence = 0\<rparr>
                (backoff fw)
                (vpcIpv4CidrBlockAssociationStateRefresh hs (EC2Conn meta) (GetString d ''vpc_id'')
                   (StringValue (AssociationId resp)))
                (w @ [OpAssociateVpcCidrBlock]) = Some ((v, Some err), w')
          \<and> d' = SetId (StringValue (AssociationId resp)) d
          \<and> args = [ArgS (StringValue (AssociationId resp)), ArgE err])"
    unfolding resourceVPCIPv4CIDRBlockAssociationCreate_def resourceVPCIPv4CIDRBlockAssociationRead_def Let_def
    by (auto simp: invoke_def SetId_def GetString_def split: prod.splits sum.splits option.splits list.splits)
next
  show "resourceTransitGatewayConnectCreate fw hs d meta w
      = (Some (Errorf ''error waiting for EC2 Transit Gateway Connect Attachment (%s) availability: %s'' args),
         d', w')
    \<longleftrightarrow> (\<exists>output err.
          CreateTransitGatewayConnect (EC2Conn meta) (length w)
            \<lparr>req_Protocol = ''gre'',
             req_TransportTransitGatewayAttachmentId = GetString d ''transport_attachment_id'',
             req_TagSpecifications = MergeTags meta (GetTags d ''tags'')\<rparr> = Inr output
          \<and> invoke_helper
                (waitForTransitGatewayAttachmentCreation hs (EC2Conn meta)
                   (StringValue (TransitGatewayAttachmentId output)))
                (w @ [OpCreateTransitGatewayConnect]) = (Some err, w')
          \<and> d' = SetId (StringValue (TransitGatewayAttachmentId output)) d
          \<and> args = [ArgS (StringValue (TransitGatewayAttachmentId output)), ArgE err])"
    unfolding resourceTransitGatewayConnectCreate_def Let_def
    by (auto simp: invoke_def SetId_def split: prod.splits sum.splits option.splits if_splits
        dest: resourceTransitGatewayConnectRead_not_wait_error)
qed

lemma demo_create_failing:
  "resourceVPCIPv4CIDRBlockAssociationCreate demo_sdk demo_failing demo_d (demo_meta demo_conn) []
   = Some (Some (Errorf ''Error waiting for IPv4 CIDR block association (%s) to become available: %s''
                   [ArgS ''vpc-cidr-assoc-1'', ArgE (UnexpectedStateError ''failed'')]),
           demo_d\<lparr>d_Id := ''vpc-cidr-assoc-1''\<rparr>,
           [OpAssociateVpcCidrBlock, OpDescribeVpcs, OpDescribeVpcs])"
  by (simp add: resourceVPCIPv4CIDRBlockAssociationCreate_def vpcIpv4CidrBlockAssociationStateRefresh_def
      poll.simps model_defs demo_defs)

lemma demo_connect_create_timeout:
  "resourceTransitGatewayConnectCreate demo_sdk demo_wait_timeout demo_d (demo_meta demo_conn) []
   = (Some (Errorf ''error waiting for EC2 Transit Gateway Connect Attachment (%s) availability: %s''
              [ArgS ''tgw-attach-1'', ArgE (TimeoutError ''pending'')]),
      demo_d\<lparr>d_Id := ''tgw-attach-1''\<rparr>,
      [OpCreateTransitGatewayConnect, OpOther ''DescribeTransitGatewayAttachments'' False])"
  by (simp add: resourceTransitGatewayConnectCreate_def model_defs demo_defs)

theorem create_wait_failure_keeps_identifier_witness:
  "resourceVPCIPv4CIDRBlockAssociationCreate demo_sdk demo_failing demo_d (demo_meta demo_conn) []
     = Some (Some (Errorf ''Error waiting for IPv4 CIDR block association (%s) to become available: %s''
                     [ArgS ''vpc-cidr-assoc-1'', ArgE (UnexpectedStateError ''failed'')]),
             demo_d\<lparr>d_Id := ''vpc-cidr-assoc-1''\<rparr>,
             [OpAssociateVpcCidrBlock, OpDescribeVpcs, OpDescribeVpcs])
   \<and> resourceTransitGatewayConnectCreate demo_sdk demo_wait_timeout demo_d (demo_meta demo_conn) []
     = (Some (Errorf ''error waiting for EC2 Transit Gateway Connect Attachment (%s) availability: %s''
              [ArgS ''tgw-attach-1'', ArgE (TimeoutError ''pending'')]),
        demo_d\<lparr>d_Id := ''tgw-attach-1''\<rparr>,
        [OpCreateTransitGatewayConnect, OpOther ''DescribeTransitGatewayAttachments'' False])
   \<and> (\<exists>resp. AssociateVpcCidrBlock demo_conn 0
            \<lparr>req_VpcId = ''vpc-1'', req_CidrBlock = Some ''10.1.0.0/16'',
             req_Ipv4IpamPoolId = None, req_Ipv4NetmaskLength = None\<rparr> = Inr resp
          \<and> demo_d\<lparr>d_Id := ''vpc-cidr-assoc-1''\<rparr> = SetId (StringValue (AssociationId resp)) demo_d)
   \<and> (\<exists>output. CreateTransitGatewayConnect demo_conn 0
            \<lparr>req_Protocol = ''gre'', req_TransportTransitGatewayAttachmentId = ''tgw-attach-0'',
             req_TagSpecifications = []\<rparr> = Inr output
          \<and> demo_d\<lparr>d_Id := ''tgw-attach-1''\<rparr> = SetId (StringValue (TransitGatewayAttachmentId output)) demo_d)"
proof -
  note t = create_wait_failure_keeps_identifier[of demo_sdk demo_failing demo_d "demo_meta demo_conn" "[]"
      "[ArgS ''vpc-cidr-assoc-1'', ArgE (UnexpectedStateError ''failed'')]"
      "demo_d\<lparr>d_Id := ''vpc-cidr-assoc-1''\<rparr>" "[OpAssociateVpcCidrBlock, OpDescribeVpcs, OpDescribeVpcs]"]
  note u = create_wait_failure_keeps_identifier[of demo_sdk demo_wait_timeout demo_d "demo_meta demo_conn" "[]"
      "[ArgS ''tgw-attach-1'', ArgE (TimeoutError ''pending'')]"
      "demo_d\<lparr>d_Id := ''tgw-attach-1''\<rparr>"
      "[OpCreateTransitGatewayConnect, OpOther ''DescribeTransitGatewayAttachments'' False]"]
  have g: "GetString demo_d ''vpc_id'' = ''vpc-1''" "GetOkString demo_d ''cidr_block'' = Some ''10.1.0.0/16''"
    "GetOkString demo_d ''ipv4_ipam_pool_id'' = None" "GetOkInt demo_d ''ipv4_netmask_length'' = None"
    "GetString demo_d ''transport_attachment_id'' = ''tgw-attach-0''" "GetTags demo_d ''tags'' = []"
    "EC2Conn (demo_meta demo_conn) = demo_conn" "MergeTags (demo_meta demo_conn) [] = []"
    by (simp_all add: model_defs demo_defs)
  from t[THEN conjunct1] demo_create_failing
  have 1: "\<exists>resp. AssociateVpcCidrBlock demo_conn 0
            \<lparr>req_VpcId = ''vpc-1'', req_CidrBlock = Some ''10.1.0.0/16'',
             req_Ipv4IpamPoolId = None, req_Ipv4NetmaskLength = None\<rparr> = Inr resp
          \<and> demo_d\<lparr>d_Id := ''vpc-cidr-assoc-1''\<rparr> = SetId (StringValue (AssociationId resp)) demo_d"
    unfolding g by auto
  from u[THEN conjunct2] demo_connect_create_timeout
  have 2: "\<exists>output. CreateTransitGatewayConnect demo_conn 0
            \<lparr>req_Protocol = ''gre'', req_TransportTransitGatewayAttachmentId = ''tgw-attach-0'',
             req_TagSpecifications = []\<rparr> = Inr output
          \<and> demo_d\<lparr>d_Id := ''tgw-attach-1''\<rparr> = SetId (StringValue (TransitGatewayAttachmentId output)) demo_d"
    unfolding g by auto
  from 1 2 demo_create_failing demo_connect_create_timeout show ?thesis by blast
qed

text \<open>
  C2 as stated leaves the identifier unset when the wait fails.  Here the association
  enters the state \<open>failed\<close>, the wait of \<open>resourceVPCIPv4CIDRBlockAssociationCreate\<close> fails,
  and the identifier \<open>vpc-cidr-assoc-1\<close> stays recorded.
\<close>

theorem create_wait_failure_identifier_unset_counterexample:
  "resourceVPCIPv4CIDRBlockAssociationCreate demo_sdk demo_failing demo_d (demo_meta demo_conn) []
     = Some (Some (Errorf ''Error waiting for IPv4 CIDR block association (%s) to become available: %s''
                     [ArgS ''vpc-cidr-assoc-1'', ArgE (UnexpectedStateError ''failed'')]),
             demo_d\<lparr>d_Id := ''vpc-cidr-assoc-1''\<rparr>,
             [OpAssociateVpcCidrBlock, OpDescribeVpcs, OpDescribeVpcs])
   \<and> d_Id (demo_d\<lparr>d_Id := ''vpc-cidr-assoc-1''\<rparr>) \<noteq> ''''"
  by (simp add: demo_create_failing)

subsection \<open>Mutating calls\<close>

lemma starts_with_invoke: "starts_with op w (w @ [op])"
  by (simp add: starts_with_def)

lemma starts_with_append: "starts_with op w x \<Longrightarrow> starts_with op w (x @ cs)"
proof -
  assume a: "starts_with op w x"
  then have "length (take (Suc (length w)) x) = Suc (length w)"
    by (simp add: starts_with_def)
  then have "Suc (length w) \<le> length x" by simp
  with a show ?thesis by (simp add: starts_with_def)
qed

lemma one_mutation_invoke: "mutating op \<Longrightarrow> one_mutation op w (w @ [op])"
  by (simp add: one_mutation_def starts_with_invoke mutations_def)

lemma one_mutation_append:
  "one_mutation op w x \<Longrightarrow> mutations cs = [] \<Longrightarrow> one_mutation op w (x @ cs)"
  by (simp add: one_mutation_def starts_with_append)

lemma read_only_mutations: "read_only h \<Longrightarrow> mutations (snd (h c)) = []"
  by (simp add: read_only_def mutations_def)

lemma vpc_refresh_world:
  assumes "vpcIpv4CidrBlockAssociationStateRefresh hs conn vpcId assocId w = Some (r, w1)"
  shows "w1 = w @ snd (vpcDescribe hs conn vpcId (length w))"
  using assms
  by (auto simp: vpcIpv4CidrBlockAssociationStateRefresh_def invoke_helper_def
      split: prod.splits sum.splits option.splits)

lemma vpc_wait_one_mutation:
  assumes "read_only_lookups hs conn"
    and "WaitForState conf bk (vpcIpv4CidrBlockAssociationStateRefresh hs conn vpcId assocId) w1 = Some (res, w2)"
    and "one_mutation op w w1"
  shows "one_mutation op w w2"
proof (rule WaitForState_world_invariant[where P = "one_mutation op w", OF _ assms(2,3)])
  fix x r x1
  assume "one_mutation op w x" "vpcIpv4CidrBlockAssociationStateRefresh hs conn vpcId assocId x = Some (r, x1)"
  moreover have "mutations (snd (vpcDescribe hs conn vpcId (length x))) = []"
    using assms(1) by (simp add: read_only_lookups_def read_only_mutations)
  ultimately show "one_mutation op w x1"
    using vpc_refresh_world one_mutation_append by metis
qed

lemma vpc_create_one_mutation:
  assumes "read_only_lookups hs (EC2Conn meta)"
    and "resourceVPCIPv4CIDRBlockAssociationCreate fw hs d meta w = Some (err, d', w')"
  shows "one_mutation OpAssociateVpcCidrBlock w w'"
proof -
  have 0: "one_mutation OpAssociateVpcCidrBlock w (w @ [OpAssociateVpcCidrBlock])"
    by (simp add: one_mutation_invoke)
  have rd: "one_mutation OpAssociateVpcCidrBlock w (snd (snd (resourceVPCIPv4CIDRBlockAssociationRead fw d1 meta x)))"
    if "one_mutation OpAssociateVpcCidrBlock w x" for x d1
  proof -
    have "snd (snd (resourceVPCIPv4CIDRBlockAssociationRead fw d1 meta x)) = x @ [OpDescribeVpcs]"
      by (simp add: resourceVPCIPv4CIDRBlockAssociationRead_def invoke_def
          split: prod.splits sum.splits option.splits list.splits)
    with that show ?thesis by (simp add: one_mutation_append mutations_def)
  qed
  from assms(2) show ?thesis
    unfolding resourceVPCIPv4CIDRBlockAssociationCreate_def Let_def
    using 0 rd vpc_wait_one_mutation[OF assms(1) _ 0]
    by (auto simp: invoke_def split: prod.splits sum.splits option.splits) (metis snd_conv)+
qed

lemma vpc_delete_one_mutation:
  assumes "read_only_lookups hs (EC2Conn meta)"
    and "resourceVPCIPv4CIDRBlockAssociationDelete fw hs d meta w = Some (err, d', w')"
  shows "one_mutation OpDisassociateVpcCidrBlock w w'"
proof -
  have 0: "one_mutation OpDisassociateVpcCidrBlock w (w @ [OpDisassociateVpcCidrBlock])"
    by (simp add: one_mutation_invoke)
  from assms(2) show ?thesis
    unfolding resourceVPCIPv4CIDRBlockAssociationDelete_def Let_def
    using 0 vpc_wait_one_mutation[OF assms(1) _ 0]
    by (auto simp: invoke_def split: prod.splits sum.splits option.splits if_splits)
qed

lemma invoke_helper_starts_with:
  "invoke_helper h x = (r, x') \<Longrightarrow> starts_with op w x \<Longrightarrow> starts_with op w x'"
  by (auto simp: invoke_helper_def starts_with_append)

lemma invoke_helper_one_mutation:
  "invoke_helper h x = (r, x') \<Longrightarrow> read_only h \<Longrightarrow> one_mutation op w x \<Longrightarrow> one_mutation op w x'"
  by (auto simp: invoke_helper_def one_mutation_append read_only_mutations)

lemma grows_refl: "grows ro x x"
  by (simp add: grows_def)

lemma grows_append: "grows ro x x0 \<Longrightarrow> (ro \<longrightarrow> mutations cs = []) \<Longrightarrow> grows ro x (x0 @ cs)"
proof -
  assume a: "grows ro x x0" and b: "ro \<longrightarrow> mutations cs = []"
  from a have "length (take (length x) x0) = length x" by (simp add: grows_def)
  then have "length x \<le> length x0" by simp
  with a b show ?thesis by (simp add: grows_def)
qed

lemma grows_helper:
  "invoke_helper h x0 = (r, x') \<Longrightarrow> (ro \<longrightarrow> read_only h) \<Longrightarrow> grows ro x x0 \<Longrightarrow> grows ro x x'"
  by (auto simp: invoke_helper_def intro!: grows_append dest: read_only_mutations)

lemma read_only_lookups_mutations [simp]:
  assumes "read_only_lookups hs conn"
  shows "mutations (snd (vpcDescribe hs conn a c)) = []"
    "mutations (snd (waitForTransitGatewayAttachmentCreation hs conn a c)) = []"
    "mutations (snd (WaitForTransitGatewayAttachmentDeletion hs conn a c)) = []"
    "mutations (snd (DescribeTransitGatewayConnect hs conn a c)) = []"
    "mutations (snd (DescribeTransitGatewayAttachment hs conn a c)) = []"
    "mutations (snd (DescribeTransitGateway hs conn a c)) = []"
    "mutations (snd (DescribeTransitGatewayRouteTableAssociation hs conn a b c)) = []"
    "mutations (snd (FindTransitGatewayRouteTablePropagation hs conn a b c)) = []"
  using assms by (simp_all add: read_only_lookups_def read_only_mutations)

lemma connect_read_set_world:
  "snd (snd (resourceTransitGatewayConnectRead_set fw meta c a p d w)) = w"
  by (simp add: resourceTransitGatewayConnectRead_set_def Let_def split: prod.splits option.splits)

lemma connect_read_grows:
  "grows (read_only_lookups hs (EC2Conn meta)) x (snd (snd (resourceTransitGatewayConnectRead fw hs d meta x)))"
  unfolding resourceTransitGatewayConnectRead_def Let_def invoke_helper_def
  by (simp add: connect_read_set_world grows_def split: sum.split option.split)

lemma read_only_updates_mutations [simp]:
  assumes "read_only_updates hs conn"
  shows "mutations (snd (transitGatewayRouteTableAssociationUpdate hs conn a b e c)) = []"
    "mutations (snd (transitGatewayRouteTablePropagationUpdate hs conn a b e c)) = []"
  using assms by (simp_all add: read_only_updates_def read_only_mutations)

lemma starts_with_connect_read:
  "starts_with op w x \<Longrightarrow> starts_with op w (snd (snd (resourceTransitGatewayConnectRead fw hs d meta x)))"
proof -
  assume a: "starts_with op w x"
  have "take (length x) (snd (snd (resourceTransitGatewayConnectRead fw hs d meta x))) = x"
    using connect_read_grows[of hs meta x fw d] by (simp add: grows_def)
  then obtain cs where "snd (snd (resourceTransitGatewayConnectRead fw hs d meta x)) = x @ cs"
    by (metis append_take_drop_id)
  with a show ?thesis by (simp add: starts_with_append)
qed

lemma one_mutation_connect_read:
  "one_mutation op w x \<Longrightarrow> read_only_lookups hs (EC2Conn meta)
   \<Longrightarrow> one_mutation op w (snd (snd (resourceTransitGatewayConnectRead fw hs d meta x)))"
  using connect_read_grows[of hs meta x fw d]
  by (simp add: one_mutation_def starts_with_connect_read grows_def)

lemma connect_create_starts_with:
  "starts_with OpCreateTransitGatewayConnect w (snd (snd (resourceTransitGatewayConnectCreate fw hs d meta w)))"
proof -
  have 0: "starts_with OpCreateTransitGatewayConnect w ((w @ [OpCreateTransitGatewayConnect]) @ cs)" for cs
    by (rule starts_with_append) (rule starts_with_invoke)
  have 1: "starts_with OpCreateTransitGatewayConnect w
             (snd (snd (resourceTransitGatewayConnectRead fw hs d1 meta ((w @ [OpCreateTransitGatewayConnect]) @ cs))))"
    for cs d1
    by (rule starts_with_connect_read) (rule 0)
  show ?thesis
    unfolding resourceTransitGatewayConnectCreate_def Let_def invoke_helper_def invoke_def
    using 0 1 0[of "[]"]
    by (simp split: sum.split option.split)
qed

lemma connect_create_one_mutation:
  assumes "read_only_lookups hs (EC2Conn meta)" and "read_only_updates hs (EC2Conn meta)"
  shows "one_mutation OpCreateTransitGatewayConnect w (snd (snd (resourceTransitGatewayConnectCreate fw hs d meta w)))"
proof -
  have 0: "one_mutation OpCreateTransitGatewayConnect w ((w @ [OpCreateTransitGatewayConnect]) @ cs)"
    if "mutations cs = []" for cs
    by (rule one_mutation_append[OF one_mutation_invoke that]) simp
  have 1: "one_mutation OpCreateTransitGatewayConnect w
             (snd (snd (resourceTransitGatewayConnectRead fw hs d1 meta ((w @ [OpCreateTransitGatewayConnect]) @ cs))))"
    if "mutations cs = []" for cs d1
    by (rule one_mutation_connect_read[OF 0[OF that] assms(1)])
  have 2: "one_mutation OpCreateTransitGatewayConnect w (w @ [OpCreateTransitGatewayConnect])"
    by (simp add: one_mutation_invoke)
  show ?thesis
    unfolding resourceTransitGatewayConnectCreate_def Let_def invoke_helper_def invoke_def
    using 0 1 2 assms
    by (simp split: sum.split option.split)
qed

lemma connect_delete_starts_with:
  "starts_with OpDeleteTransitGatewayConnect w (snd (snd (resourceTransitGatewayConnectDelete hs d meta w)))"
  unfolding resourceTransitGatewayConnectDelete_def Let_def invoke_helper_def invoke_def
  using starts_with_append[OF starts_with_invoke, of OpDeleteTransitGatewayConnect w]
    starts_with_invoke[of OpDeleteTransitGatewayConnect w]
  by (simp split: sum.split option.split)

lemma connect_delete_one_mutation:
  assumes "read_only_lookups hs (EC2Conn meta)"
  shows "one_mutation OpDeleteTransitGatewayConnect w (snd (snd (resourceTransitGatewayConnectDelete hs d meta w)))"
  unfolding resourceTransitGatewayConnectDelete_def Let_def invoke_helper_def invoke_def
  using one_mutation_append[OF one_mutation_invoke, of OpDeleteTransitGatewayConnect _ w] assms
    one_mutation_invoke[of OpDeleteTransitGatewayConnect w]
  by (simp split: sum.split option.split)

lemma connect_update_unchanged:
  assumes "\<not> HasChange d ''transit_gateway_default_route_table_association''"
    and "\<not> HasChange d ''transit_gateway_default_route_table_propagation''"
    and "\<not> HasChange d ''tags_all''"
  shows "resourceTransitGatewayConnectUpdate fw hs d meta w = (None, d, w)"
  using assms by (simp add: resourceTransitGatewayConnectUpdate_def Let_def)

lemma domain_policy_retry_one_mutation:
  assumes "Retry timeout bk (resourceDomainPolicy_retry conn domainName message d) w1 = Some (err, w2)"
    and "one_mutation op w w1"
  shows "one_mutation op w w2"
proof (rule Retry_world_invariant[where P = "one_mutation op w", OF _ assms])
  fix x r x1
  assume "one_mutation op w x" "resourceDomainPolicy_retry conn domainName message d x = (r, x1)"
  then show "one_mutation op w x1"
    by (auto simp: resourceDomainPolicy_retry_def invoke_def mutations_def
        split: sum.splits if_splits intro!: one_mutation_append)
qed

lemma domain_policy_read_world:
  "snd (snd (resourceDomainPolicyRead fw hs d conn w)) = w @ [OpDescribeElasticsearchDomain]"
  by (simp add: resourceDomainPolicyRead_def Let_def invoke_def split: sum.splits error.splits)

lemma domain_policy_upsert_one_mutation:
  assumes "NormalizeJsonString hs (GetString d ''access_policies'') = (policy, None)"
    and "resourceDomainPolicyUpsert fw hs d conn w = Some (err, d', w')"
  shows "one_mutation OpUpdateElasticsearchDomainConfig w w'"
proof -
  have 0: "one_mutation OpUpdateElasticsearchDomainConfig w (w @ [OpUpdateElasticsearchDomainConfig])"
    by (simp add: one_mutation_invoke)
  have r: "one_mutation OpUpdateElasticsearchDomainConfig w (x @ [OpDescribeElasticsearchDomain])"
    if "one_mutation OpUpdateElasticsearchDomainConfig w x" for x
    using that by (simp add: one_mutation_append mutations_def)
  have rd: "one_mutation OpUpdateElasticsearchDomainConfig w (snd (snd (resourceDomainPolicyRead fw hs d1 conn x)))"
    if "one_mutation OpUpdateElasticsearchDomainConfig w x" for x d1
    using that by (simp add: domain_policy_read_world r)
  from assms show ?thesis
    unfolding resourceDomainPolicyUpsert_def Let_def
    using 0 r rd domain_policy_retry_one_mutation[OF _ 0]
    by (auto simp: invoke_def split: prod.splits sum.splits option.splits if_splits)
       (metis snd_conv)+
qed

lemma domain_policy_upsert_invalid:
  assumes "NormalizeJsonString hs (GetString d ''access_policies'') = (policy, Some e)"
  shows "resourceDomainPolicyUpsert fw hs d conn w
           = Some (Some (Errorf ''policy (%s) is invalid JSON: %w'' [ArgS policy, ArgE e]), d, w)"
  using assms by (simp add: resourceDomainPolicyUpsert_def Let_def)

lemma domain_policy_delete_one_mutation:
  assumes "resourceDomainPolicyDelete fw d conn w = Some (err, d', w')"
  shows "one_mutation OpUpdateElasticsearchDomainConfig w w'"
proof -
  have 0: "one_mutation OpUpdateElasticsearchDomainConfig w (w @ [OpUpdateElasticsearchDomainConfig])"
    by (simp add: one_mutation_invoke)
  have r: "one_mutation OpUpdateElasticsearchDomainConfig w (x @ [OpDescribeElasticsearchDomain])"
    if "one_mutation OpUpdateElasticsearchDomainConfig w x" for x
    using that by (simp add: one_mutation_append mutations_def)
  from assms show ?thesis
    unfolding resourceDomainPolicyDelete_def Let_def
    using 0 r domain_policy_retry_one_mutation[OF _ 0]
    by (auto simp: invoke_def split: prod.splits sum.splits option.splits if_splits)
qed

text \<open>
  C3 (as amended).  Each of these orchestrators makes its one mutating call first, before
  any wait, and no other mutating call, as long as the helpers that look things up make
  none: \<open>resourceVPCIPv4CIDRBlockAssociationCreate\<close> (\<open>AssociateVpcCidrBlock\<close>),
  \<open>resourceVPCIPv4CIDRBlockAssociationDelete\<close> (\<open>DisassociateVpcCidrBlock\<close>),
  \<open>resourceTransitGatewayConnectDelete\<close> (\<open>DeleteTransitGatewayConnect\<close>),
  \<open>resourceDomainPolicyUpsert\<close> when the policy normalises and \<open>resourceDomainPolicyDelete\<close>
  (\<open>UpdateElasticsearchDomainConfig\<close>).  \<open>resourceTransitGatewayConnectCreate\<close> always makes
  \<open>CreateTransitGatewayConnect\<close> as its first call; it is its only mutating call when the
  two route table update helpers make none.  \<open>resourceTransitGatewayConnectUpdate\<close> makes no
  call at all when neither route table flag nor \<open>tags_all\<close> has changed.
\<close>

theorem orchestrators_mutating_calls:
  "(read_only_lookups hs (EC2Conn meta)
      \<and> resourceVPCIPv4CIDRBlockAssociationCreate fw hs d meta w = Some (err, d', w')
      \<longrightarrow> one_mutation OpAssociateVpcCidrBlock w w')
   \<and> (read_only_lookups hs (EC2Conn meta)
      \<and> resourceVPCIPv4CIDRBlockAssociationDelete fw hs d meta w = Some (err, d', w')
      \<longrightarrow> one_mutation OpDisassociateVpcCidrBlock w w')
   \<and> starts_with OpCreateTransitGatewayConnect w
        (snd (snd (resourceTransitGatewayConnectCreate fw hs d meta w)))
   \<and> (read_only_lookups hs (EC2Conn meta) \<and> read_only_updates hs (EC2Conn meta)
      \<longrightarrow> one_mutation OpCreateTransitGatewayConnect w
            (snd (snd (resourceTransitGatewayConnectCreate fw hs d meta w))))
   \<and> (read_only_lookups hs (EC2Conn meta)
      \<longrightarrow> one_mutation OpDeleteTransitGatewayConnect w
            (snd (snd (resourceTransitGatewayConnectDelete hs d meta w))))
   \<and> (\<not> HasChange d ''transit_gateway_default_route_table_association''
      \<and> \<not> HasChange d ''transit_gateway_default_route_table_propagation''
      \<and> \<not> HasChange d ''tags_all''
      \<longrightarrow> resourceTransitGatewayConnectUpdate fw hs d meta w = (None, d, w))
   \<and> (NormalizeJsonString es (GetString d ''access_policies'') = (policy, None)
      \<and> resourceDomainPolicyUpsert fw es d esconn w = Some (err, d', w')
      \<longrightarrow> one_mutation OpUpdateElasticsearchDomainConfig w w')
   \<and> (resourceDomainPolicyDelete fw d esconn w = Some (err, d', w')
      \<longrightarrow> one_mutation OpUpdateElasticsearchDomainConfig w w')"
  using vpc_create_one_mutation[of hs meta fw d w err d' w']
    vpc_delete_one_mutation[of hs meta fw d w err d' w']
    connect_create_starts_with[of w fw hs d meta]
    connect_create_one_mutation[of hs meta w fw d]
    connect_delete_one_mutation[of hs meta w d]
    connect_update_unchanged[of d fw hs meta w]
    domain_policy_upsert_one_mutation[of es d policy fw esconn w err d' w']
    domain_policy_delete_one_mutation[of fw d esconn w err d' w']
  by blast

lemma demo_read_only:
  "read_only_lookups demo_failing conn" "read_only_lookups demo_settled conn"
  "read_only_updates demo_settled conn"
  by (simp_all add: read_only_lookups_def read_only_updates_def read_only_def demo_defs)

theorem orchestrators_mutating_calls_witness:
  "one_mutation OpAssociateVpcCidrBlock [] [OpAssociateVpcCidrBlock, OpDescribeVpcs, OpDescribeVpcs]
   \<and> one_mutation OpCreateTransitGatewayConnect []
        (snd (snd (resourceTransitGatewayConnectCreate demo_sdk demo_settled demo_d (demo_meta demo_conn) [])))
   \<and> mutations (snd (snd (resourceTransitGatewayConnectCreate demo_sdk demo_settled demo_d
                             (demo_meta demo_conn) [])))
     = [OpCreateTransitGatewayConnect]
   \<and> mutations (snd (snd (resourceTransitGatewayConnectCreate demo_sdk demo_failing demo_d
                             (demo_meta demo_conn) [])))
     = [OpCreateTransitGatewayConnect, OpOther ''AssociateTransitGatewayRouteTable'' True,
        OpOther ''EnableTransitGatewayRouteTablePropagation'' True]
   \<and> resourceTransitGatewayConnectUpdate demo_sdk demo_failing (demo_d\<lparr>prior := attrs demo_d\<rparr>)
        (demo_meta demo_conn) []
     = (None, demo_d\<lparr>prior := attrs demo_d\<rparr>, [])"
proof -
  note t = orchestrators_mutating_calls[where fw = demo_sdk and meta = "demo_meta demo_conn" and w = "[]"]
  have 1: "one_mutation OpAssociateVpcCidrBlock [] [OpAssociateVpcCidrBlock, OpDescribeVpcs, OpDescribeVpcs]"
    using t[where hs = demo_failing and d = demo_d, THEN conjunct1] demo_read_only(1) demo_create_failing
    by simp
  have 2: "one_mutation OpCreateTransitGatewayConnect []
        (snd (snd (resourceTransitGatewayConnectCreate demo_sdk demo_settled demo_d (demo_meta demo_conn) [])))"
    using t[where hs = demo_settled and d = demo_d, THEN conjunct2, THEN conjunct2, THEN conjunct2, THEN conjunct1]
      demo_read_only(2,3)
    by simp
  then have 3: "mutations (snd (snd (resourceTransitGatewayConnectCreate demo_sdk demo_settled demo_d
                             (demo_meta demo_conn) [])))
     = [OpCreateTransitGatewayConnect]"
    by (simp add: one_mutation_def mutations_def)
  have 4: "mutations (snd (snd (resourceTransitGatewayConnectCreate demo_sdk demo_failing demo_d
                             (demo_meta demo_conn) [])))
     = [OpCreateTransitGatewayConnect, OpOther ''AssociateTransitGatewayRouteTable'' True,
        OpOther ''EnableTransitGatewayRouteTablePropagation'' True]"
    by (simp add: resourceTransitGatewayConnectCreate_def resourceTransitGatewayConnectRead_def
        resourceTransitGatewayConnectRead_set_def mutations_def model_defs demo_defs Let_def)
  have 5: "resourceTransitGatewayConnectUpdate demo_sdk demo_failing (demo_d\<lparr>prior := attrs demo_d\<rparr>)
        (demo_meta demo_conn) []
     = (None, demo_d\<lparr>prior := attrs demo_d\<rparr>, [])"
    using t[where hs = demo_failing and d = "demo_d\<lparr>prior := attrs demo_d\<rparr>",
        THEN conjunct2, THEN conjunct2, THEN conjunct2, THEN conjunct2, THEN conjunct2, THEN conjunct1]
    by (simp add: HasChange_def)
  from 1 2 3 4 5 show ?thesis by blast
qed

text \<open>
  C3 as stated has every orchestrator make exactly one mutating call.
  \<open>resourceTransitGatewayConnectUpdate\<close> on a resource none of whose watched attributes has
  changed returns nil without any call.
\<close>

theorem update_without_change_counterexample:
  "resourceTransitGatewayConnectUpdate demo_sdk demo_failing (demo_d\<lparr>prior := attrs demo_d\<rparr>)
        (demo_meta demo_conn) []
     = (None, demo_d\<lparr>prior := attrs demo_d\<rparr>, [])
   \<and> mutations ([] :: world) = []
   \<and> length (mutations ([] :: world)) \<noteq> 1"
  by (simp add: resourceTransitGatewayConnectUpdate_def HasChange_def mutations_def Let_def)

subsection \<open>Delete of an absent object\<close>

lemma Contains_empty [simp]: "Contains s []"
  by (cases s) simp_all

text \<open>
  C4.  When the mutating delete call answers with the not-found error class the
  orchestrator tests for (\<open>InvalidVpcID.NotFound\<close> in
  \<open>resourceVPCIPv4CIDRBlockAssociationDelete\<close>, \<open>InvalidTransitGatewayAttachmentID.NotFound\<close>
  in \<open>resourceTransitGatewayConnectDelete\<close>), the delete returns nil, leaves the local state
  as it was, and has made the delete call and nothing else: no poll, whatever the
  helpers and the poller would do.  When the call answers so twice in a row, a second
  delete on the state and the world the first one left succeeds as well.
\<close>

theorem delete_not_found_is_success:
  "(DisassociateVpcCidrBlock (EC2Conn meta) (length w) (d_Id d) = Some (AwsError ''InvalidVpcID.NotFound'' msg)
      \<longrightarrow> resourceVPCIPv4CIDRBlockAssociationDelete fw hs d meta w
            = Some (None, d, w @ [OpDisassociateVpcCidrBlock])
          \<and> (DisassociateVpcCidrBlock (EC2Conn meta) (Suc (length w)) (d_Id d)
                = Some (AwsError ''InvalidVpcID.NotFound'' msg')
              \<longrightarrow> resourceVPCIPv4CIDRBlockAssociationDelete fw hs d meta (w @ [OpDisassociateVpcCidrBlock])
                    = Some (None, d, w @ [OpDisassociateVpcCidrBlock, OpDisassociateVpcCidrBlock])))
   \<and> (DeleteTransitGatewayConnect (EC2Conn meta) (length w) (d_Id d)
        = Some (AwsError ''InvalidTransitGatewayAttachmentID.NotFound'' msg)
      \<longrightarrow> resourceTransitGatewayConnectDelete hs d meta w = (None, d, w @ [OpDeleteTransitGatewayConnect])
          \<and> (DeleteTransitGatewayConnect (EC2Conn meta) (Suc (length w)) (d_Id d)
                = Some (AwsError ''InvalidTransitGatewayAttachmentID.NotFound'' msg')
              \<longrightarrow> resourceTransitGatewayConnectDelete hs d meta (w @ [OpDeleteTransitGatewayConnect])
                    = (None, d, w @ [OpDeleteTransitGatewayConnect, OpDeleteTransitGatewayConnect])))"
  by (simp add: resourceVPCIPv4CIDRBlockAssociationDelete_def resourceTransitGatewayConnectDelete_def
      invoke_def)

theorem delete_not_found_is_success_witness:
  "resourceVPCIPv4CIDRBlockAssociationDelete demo_sdk demo_gone (SetId ''vpc-cidr-assoc-1'' demo_d)
       (demo_meta demo_gone_conn) []
     = Some (None, SetId ''vpc-cidr-assoc-1'' demo_d, [OpDisassociateVpcCidrBlock])
   \<and> resourceVPCIPv4CIDRBlockAssociationDelete demo_sdk demo_gone (SetId ''vpc-cidr-assoc-1'' demo_d)
       (demo_meta demo_gone_conn) [OpDisassociateVpcCidrBlock]
     = Some (None, SetId ''vpc-cidr-assoc-1'' demo_d, [OpDisassociateVpcCidrBlock, OpDisassociateVpcCidrBlock])
   \<and> resourceTransitGatewayConnectDelete demo_gone (SetId ''tgw-attach-1'' demo_d) (demo_meta demo_gone_conn) []
     = (None, SetId ''tgw-attach-1'' demo_d, [OpDeleteTransitGatewayConnect])
   \<and> resourceTransitGatewayConnectDelete demo_gone (SetId ''tgw-attach-1'' demo_d) (demo_meta demo_gone_conn)
       [OpDeleteTransitGatewayConnect]
     = (None, SetId ''tgw-attach-1'' demo_d, [OpDeleteTransitGatewayConnect, OpDeleteTransitGatewayConnect])"
proof -
  have a: "DisassociateVpcCidrBlock (EC2Conn (demo_meta demo_gone_conn)) c x
      = Some (AwsError ''InvalidVpcID.NotFound'' ''The vpc ID does not exist'')" for c x
    by (simp add: demo_defs)
  have b: "DeleteTransitGatewayConnect (EC2Conn (demo_meta demo_gone_conn)) c x
      = Some (AwsError ''InvalidTransitGatewayAttachmentID.NotFound'' ''no such attachment'')" for c x
    by (simp add: demo_defs)
  from delete_not_found_is_success[where meta = "demo_meta demo_gone_conn" and w = "[]"
      and d = "SetId ''vpc-cidr-assoc-1'' demo_d" and msg = "''The vpc ID does not exist''"
      and msg' = "''The vpc ID does not exist''" and fw = demo_sdk and hs = demo_gone]
    delete_not_found_is_success[where meta = "demo_meta demo_gone_conn" and w = "[]"
      and d = "SetId ''tgw-attach-1'' demo_d" and msg = "''no such attachment''"
      and msg' = "''no such attachment''" and fw = demo_sdk and hs = demo_gone]
  show ?thesis
    unfolding a b by simp
qed

subsection \<open>Refresh of an absent object\<close>










subsection \<open>Read of an absent object\<close>



subsection \<open>Read of a connect attachment that is being deleted\<close>

text \<open>
  C10.  When the describe helper returns a connect attachment whose state is \<open>deleting\<close> or
  \<open>deleted\<close>, \<open>resourceTransitGatewayConnectRead\<close> does what it does for an absent attachment:
  it clears the identifier and returns nil.  It has made the describe helper's calls only
  (no transit gateway, attachment or route table lookup), and no attribute, the tags
  included, is written.
\<close>

theorem read_deleting_connect_is_absent:
  "DescribeTransitGatewayConnect hs (EC2Conn meta) (d_Id d) (length w) = (Inr (Some transitGatewayConnect), cs)
   \<Longrightarrow> StringValue (connect_State transitGatewayConnect) = ''deleting''
       \<or> StringValue (connect_State transitGatewayConnect) = ''deleted''
   \<Longrightarrow> resourceTransitGatewayConnectRead fw hs d meta w = (None, SetId '''' d, w @ cs)
       \<and> d_Id (SetId '''' d) = '''' \<and> attrs (SetId '''' d) = attrs d
       \<and> resourceTransitGatewayConnectRead fw
             (hs\<lparr>DescribeTransitGatewayConnect := (\<lambda>conn attachmentId c. (Inr None, cs))\<rparr>) d meta w
           = (None, SetId '''' d, w @ cs)"
  by (auto simp: resourceTransitGatewayConnectRead_def invoke_helper_def Let_def SetId_def
      TransitGatewayAttachmentStateDeleting_def TransitGatewayAttachmentStateDeleted_def)

theorem read_deleting_connect_is_absent_witness:
  "resourceTransitGatewayConnectRead demo_sdk
       (demo_helpers (\<lambda>c. Inr None) (\<lambda>c. Inr (Some (demo_connect ''deleting''))) ''111'')
       (SetId ''tgw-attach-1'' demo_d) (demo_meta demo_conn) []
     = (None, SetId '''' (SetId ''tgw-attach-1'' demo_d), [OpOther ''DescribeTransitGatewayConnects'' False])
   \<and> resourceTransitGatewayConnectRead demo_sdk
       (demo_helpers (\<lambda>c. Inr None) (\<lambda>c. Inr (Some (demo_connect ''deleted''))) ''111'')
       (SetId ''tgw-attach-1'' demo_d) (demo_meta demo_conn) []
     = (None, SetId '''' (SetId ''tgw-attach-1'' demo_d), [OpOther ''DescribeTransitGatewayConnects'' False])
   \<and> snd (snd (resourceTransitGatewayConnectRead demo_sdk
       (demo_helpers (\<lambda>c. Inr None) (\<lambda>c. Inr (Some (demo_connect ''available''))) ''111'')
       (SetId ''tgw-attach-1'' demo_d) (demo_meta demo_conn) []))
     = [OpOther ''DescribeTransitGatewayConnects'' False, OpOther ''DescribeTransitGateways'' False,
        OpOther ''DescribeTransitGatewayAttachments'' False,
        OpOther ''GetTransitGatewayRouteTableAssociations'' False,
        OpOther ''GetTransitGatewayRouteTablePropagations'' False]"
proof -
  have 1: "DescribeTransitGatewayConnect
             (demo_helpers (\<lambda>c. Inr None) (\<lambda>c. Inr (Some (demo_connect s))) ''111'')
             (EC2Conn (demo_meta demo_conn)) (d_Id (SetId ''tgw-attach-1'' demo_d)) (length ([] :: world))
           = (Inr (Some (demo_connect s)), [OpOther ''DescribeTransitGatewayConnects'' False])" for s
    by (simp add: demo_defs)
  have 2: "StringValue (connect_State (demo_connect s)) = s" for s
    by (simp add: demo_defs model_defs)
  have 3: "snd (snd (resourceTransitGatewayConnectRead demo_sdk
       (demo_helpers (\<lambda>c. Inr None) (\<lambda>c. Inr (Some (demo_connect ''available''))) ''111'')
       (SetId ''tgw-attach-1'' demo_d) (demo_meta demo_conn) []))
     = [OpOther ''DescribeTransitGatewayConnects'' False, OpOther ''DescribeTransitGateways'' False,
        OpOther ''DescribeTransitGatewayAttachments'' False,
        OpOther ''GetTransitGatewayRouteTableAssociations'' False,
        OpOther ''GetTransitGatewayRouteTablePropagations'' False]"
    by (simp add: resourceTransitGatewayConnectRead_def resourceTransitGatewayConnectRead_set_def
        model_defs demo_defs Let_def)
  from read_deleting_connect_is_absent[OF 1[of "''deleting''"], of demo_sdk]
    read_deleting_connect_is_absent[OF 1[of "''deleted''"], of demo_sdk] 2 3
  show ?thesis by simp
qed

end
